theory Spec2Isabelle
  imports Main "HOL-Library.Word"
begin

section \<open>Locators and addresses\<close>

text \<open>
  The UDPv4 transport of Fast-RTPS (\<^verbatim>\<open>src/cpp/transport/UDPv4Transport.cpp\<close>) and the
  receiver resource built on it (\<^verbatim>\<open>src/cpp/rtps/network/ReceiverResource.cpp\<close>),
  embedded as functions on an explicit transport state. The locks of the source are not
  modelled: every operation below is the sequential behaviour of one call.
\<close>

type_synonym octet = "8 word"

text \<open>
  Modelled from the spec: the declaration of \<^verbatim>\<open>Locator_t\<close> (Locator.h) is not among
  the sources. Section 3 of the specification gives its fields: a kind, a 16-byte address
  and a 32-bit port, compared by value. The address array is a list here; every locator
  of the program has 16 bytes in it.
\<close>

record Locator_t =
  kind :: "32 word"
  port :: "32 word"
  address :: "octet list"

text \<open>
  Modelled from the spec: the constant \<^verbatim>\<open>LOCATOR_KIND_UDPv4\<close> is declared in the same
  missing header; RTPS fixes its value to 1.
\<close>

definition LOCATOR_KIND_UDPv4 :: "32 word" where
  "LOCATOR_KIND_UDPv4 = 1"

text \<open>
  Modelled from the spec: the converting constructor \<^verbatim>\<open>Locator_t(uint32_t portin)\<close> of
  the same missing header, through which the \<^verbatim>\<open>return false\<close> of
  \<^verbatim>\<open>RemoteToMainLocal\<close> becomes a locator. The specification is silent on it; it is
  taken as Fast-RTPS declares it: the default kind (UDPv4), the given port and the
  invalid, all zero, address. Whatever it yields, it is one locator for every remote
  locator of another kind.
\<close>

definition Locator_from_port :: "32 word \<Rightarrow> Locator_t" where
  "Locator_from_port portin = \<lparr>kind = 1, port = portin, address = replicate 16 0\<rparr>"

datatype address_v4 = address_v4 octet octet octet octet

definition address_v4_any :: address_v4 where
  "address_v4_any = address_v4 0 0 0 0"

fun to_bytes :: "address_v4 \<Rightarrow> octet list" where
  "to_bytes (address_v4 a b c d) = [a, b, c, d]"

text \<open>
  \<^verbatim>\<open>ip::address_v4::from_string(locator.to_IP4_string())\<close>: the dotted text of bytes 12 to
  15 of the address, parsed back; the round trip through text is the four bytes.
\<close>

definition locator_IP4 :: "Locator_t \<Rightarrow> address_v4" where
  "locator_IP4 l =
     address_v4 (address l ! 12) (address l ! 13) (address l ! 14) (address l ! 15)"

type_synonym endpoint = "address_v4 \<times> 16 word"

section \<open>The operating system seen through the io_service\<close>

text \<open>
  Every call of the source on a \<^verbatim>\<open>boost::asio\<close> socket is one \<open>socket_op\<close>. The
  synchronous calls used by the source are the overloads that throw
  \<^verbatim>\<open>boost::system::system_error\<close> when the operating system refuses; the source itself
  catches that exception around \<^verbatim>\<open>open\<close>, \<^verbatim>\<open>set_option\<close> and \<^verbatim>\<open>bind\<close>.
\<close>

datatype socket_op =
    SockOpen nat
  | SetSendBufferSize nat "32 word"
  | SetReceiveBufferSize nat "32 word"
  | SetReuseAddress nat
  | SetMulticastLoopback nat
  | Bind nat address_v4 "16 word"
  | JoinGroup nat address_v4
  | Cancel nat
  | Close nat
  | SendTo nat "octet list" endpoint
  | AsyncReceiveFrom nat "32 word"

datatype exn = system_error | out_of_range

datatype 'a outcome = Returned 'a | Threw exn

fun threw :: "'a outcome \<Rightarrow> bool" where
  "threw (Returned _) = False"
| "threw (Threw _) = True"

text \<open>The completion of an asynchronous receive, as its handler sees it.\<close>

datatype completion = Received "octet list" endpoint | Failed

text \<open>
  Modelled from the spec: \<^verbatim>\<open>IPFinder::info_IP\<close> and its \<^verbatim>\<open>IPTYPE\<close> (IPFinder.h,
  not among the sources): an interface of the host, with its type and its name; the name
  of an IPv4 interface is held parsed, as \<^verbatim>\<open>address_v4::from_string\<close> reads it.
\<close>

datatype IPTYPE = IP4 | IP6 | IP4_LOCAL | IP6_LOCAL

record info_IP =
  ip_type :: IPTYPE
  ip_name :: address_v4

text \<open>
  The environment of a call: whether the operating system lets a socket operation
  succeed (it may depend on everything issued before), the interfaces
  \<^verbatim>\<open>IPFinder::getIPs\<close> reports, and how an asynchronous receive completes (\<open>None\<close>: no
  datagram ever arrives and nobody cancels, the handler never runs).
\<close>

record os_env =
  op_succeeds :: "(socket_op \<times> bool) list \<Rightarrow> socket_op \<Rightarrow> bool"
  getIPs :: "info_IP list"
  receive_completes :: "(socket_op \<times> bool) list \<Rightarrow> nat \<Rightarrow> completion option"

text \<open>
  The \<^verbatim>\<open>io_service\<close> of the transport: the socket operations issued so far, each with
  its success, and the number of sockets constructed on it (the next socket's identity).
\<close>

record io_service =
  issued :: "(socket_op \<times> bool) list"
  constructed :: nat

text \<open>
  A socket of a pool: its identity and the endpoint the source hands to \<^verbatim>\<open>bind\<close> for
  it. That is not always the endpoint the socket ends up with: for a port that is 0 in
  its low 16 bits the kernel picks the port, which is not modelled.
\<close>

record udp_socket =
  sock_id :: nat
  bind_endpoint :: endpoint

section \<open>The transport\<close>

record UDPv4Transport =
  mSendBufferSize :: "32 word"
  mReceiveBufferSize :: "32 word"
  mGranularMode :: bool
  mInterfaceWhiteList :: "address_v4 list"
  mInputSockets :: "32 word \<rightharpoonup> udp_socket"
  mOutputSockets :: "32 word \<rightharpoonup> udp_socket list"
  mGranularOutputSockets :: "Locator_t \<rightharpoonup> udp_socket"
  mService :: io_service

definition maximumUDPSocketSize :: "32 word" where
  "maximumUDPSocketSize = 65536"

text \<open>
  The descriptor of the source, with its defaults; its fields carry the prefix
  \<open>descriptor\<close> to keep the parameter names of \<^verbatim>\<open>Send\<close> and \<^verbatim>\<open>Receive\<close> free.
\<close>

record UDPv4TransportDescriptor =
  descriptor_sendBufferSize :: "32 word"
  descriptor_receiveBufferSize :: "32 word"
  descriptor_granularMode :: bool
  descriptor_interfaceWhiteList :: "address_v4 list"

definition UDPv4TransportDescriptor_default :: UDPv4TransportDescriptor where
  "UDPv4TransportDescriptor_default =
     \<lparr>descriptor_sendBufferSize = maximumUDPSocketSize,
      descriptor_receiveBufferSize = maximumUDPSocketSize,
      descriptor_granularMode = False, descriptor_interfaceWhiteList = []\<rparr>"

definition UDPv4Transport_of :: "UDPv4TransportDescriptor \<Rightarrow> UDPv4Transport" where
  "UDPv4Transport_of descriptor =
     \<lparr>mSendBufferSize = descriptor_sendBufferSize descriptor,
      mReceiveBufferSize = descriptor_receiveBufferSize descriptor,
      mGranularMode = descriptor_granularMode descriptor,
      mInterfaceWhiteList = descriptor_interfaceWhiteList descriptor,
      mInputSockets = Map.empty, mOutputSockets = Map.empty,
      mGranularOutputSockets = Map.empty,
      mService = \<lparr>issued = [], constructed = 0\<rparr>\<rparr>"

text \<open>One socket operation: asked of the operating system and recorded.\<close>

definition record_op :: "socket_op \<Rightarrow> bool \<Rightarrow> UDPv4Transport \<Rightarrow> UDPv4Transport" where
  "record_op c ok w = w\<lparr>mService := (mService w)\<lparr>issued := issued (mService w) @ [(c, ok)]\<rparr>\<rparr>"

definition os_op :: "os_env \<Rightarrow> socket_op \<Rightarrow> UDPv4Transport \<Rightarrow> UDPv4Transport \<times> bool" where
  "os_op env c w =
     (let ok = op_succeeds env (issued (mService w)) c in (record_op c ok w, ok))"

text \<open>Consecutive throwing calls: the first refusal throws and skips the rest.\<close>

fun os_ops :: "os_env \<Rightarrow> socket_op list \<Rightarrow> UDPv4Transport \<Rightarrow> UDPv4Transport \<times> bool" where
  "os_ops env [] w = (w, True)"
| "os_ops env (c # cs) w =
     (case os_op env c w of (w', ok) \<Rightarrow> if ok then os_ops env cs w' else (w', False))"

definition new_socket :: "UDPv4Transport \<Rightarrow> UDPv4Transport \<times> nat" where
  "new_socket w =
     (w\<lparr>mService := (mService w)\<lparr>constructed := Suc (constructed (mService w))\<rparr>\<rparr>,
      constructed (mService w))"

definition IsLocatorSupported :: "Locator_t \<Rightarrow> bool" where
  "IsLocatorSupported locator \<longleftrightarrow> kind locator = LOCATOR_KIND_UDPv4"

definition IsInputChannelOpen :: "UDPv4Transport \<Rightarrow> Locator_t \<Rightarrow> bool" where
  "IsInputChannelOpen w locator \<longleftrightarrow>
     IsLocatorSupported locator \<and> mInputSockets w (port locator) \<noteq> None"

definition IsOutputChannelOpen :: "UDPv4Transport \<Rightarrow> Locator_t \<Rightarrow> bool" where
  "IsOutputChannelOpen w locator \<longleftrightarrow>
     (if \<not> IsLocatorSupported locator then False
      else if mGranularMode w then mGranularOutputSockets w locator \<noteq> None
      else mOutputSockets w (port locator) \<noteq> None)"

definition IsMulticastAddress :: "Locator_t \<Rightarrow> bool" where
  "IsMulticastAddress locator \<longleftrightarrow> address locator ! 12 \<ge> 224 \<and> address locator ! 12 \<le> 239"

definition GetIP4s :: "os_env \<Rightarrow> info_IP list" where
  "GetIP4s env = filter (\<lambda>ip. \<not> (ip_type ip \<noteq> IP4)) (getIPs env)"

definition IsInterfaceAllowed :: "UDPv4Transport \<Rightarrow> address_v4 \<Rightarrow> bool" where
  "IsInterfaceAllowed w ip \<longleftrightarrow>
     (if mInterfaceWhiteList w = [] then True
      else if ip = address_v4_any then True
      else ip \<in> set (mInterfaceWhiteList w))"

definition OpenAndBindUnicastOutputSocket ::
  "os_env \<Rightarrow> UDPv4Transport \<Rightarrow> address_v4 \<Rightarrow> 32 word \<Rightarrow> UDPv4Transport \<times> udp_socket outcome" where
  "OpenAndBindUnicastOutputSocket env w ipAddress prt =
     (case new_socket w of (w0, s) \<Rightarrow>
        (case os_ops env [SockOpen s, SetSendBufferSize s (mSendBufferSize w0),
                          Bind s ipAddress (ucast prt)] w0 of
           (w1, ok) \<Rightarrow>
             if ok then (w1, Returned \<lparr>sock_id = s, bind_endpoint = (ipAddress, ucast prt)\<rparr>)
             else (w1, Threw system_error)))"

definition OpenAndBindInputSocket ::
  "os_env \<Rightarrow> UDPv4Transport \<Rightarrow> 32 word \<Rightarrow> UDPv4Transport \<times> udp_socket outcome" where
  "OpenAndBindInputSocket env w prt =
     (case new_socket w of (w0, s) \<Rightarrow>
        (case os_ops env [SockOpen s, SetReceiveBufferSize s (mReceiveBufferSize w0),
                          SetReuseAddress s, SetMulticastLoopback s,
                          Bind s address_v4_any (ucast prt)] w0 of
           (w1, ok) \<Rightarrow>
             if ok then (w1, Returned \<lparr>sock_id = s, bind_endpoint = (address_v4_any, ucast prt)\<rparr>)
             else (w1, Threw system_error)))"

text \<open>The sockets of a port in the shared output pool; none when the port has no entry.\<close>

definition output_sockets_at :: "UDPv4Transport \<Rightarrow> 32 word \<Rightarrow> udp_socket list" where
  "output_sockets_at w prt = (case mOutputSockets w prt of None \<Rightarrow> [] | Some ss \<Rightarrow> ss)"

text \<open>
  \<^verbatim>\<open>mOutputSockets[port].push_back(OpenAndBindUnicastOutputSocket(ip, port))\<close>: the
  subscript creates the (empty) entry of the port when there is none, the socket is
  opened and bound, and only then appended. A throw leaves the entry as it was found or
  created.
\<close>

definition push_back_bound_socket ::
  "os_env \<Rightarrow> UDPv4Transport \<Rightarrow> address_v4 \<Rightarrow> 32 word \<Rightarrow> UDPv4Transport \<times> unit outcome" where
  "push_back_bound_socket env w ip prt =
     (let w0 = w\<lparr>mOutputSockets := (mOutputSockets w)(prt \<mapsto> output_sockets_at w prt)\<rparr>
      in case OpenAndBindUnicastOutputSocket env w0 ip prt of
           (w1, Threw e) \<Rightarrow> (w1, Threw e)
         | (w1, Returned s) \<Rightarrow>
             (w1\<lparr>mOutputSockets := (mOutputSockets w1)(prt \<mapsto> output_sockets_at w1 prt @ [s])\<rparr>,
              Returned ()))"

text \<open>The loop of \<^verbatim>\<open>OpenAndBindOutputSockets\<close> over the interfaces of the host.\<close>

fun bind_allowed_interfaces ::
  "os_env \<Rightarrow> UDPv4Transport \<Rightarrow> 32 word \<Rightarrow> info_IP list \<Rightarrow> UDPv4Transport \<times> unit outcome" where
  "bind_allowed_interfaces env w prt [] = (w, Returned ())"
| "bind_allowed_interfaces env w prt (infoIP # locNames) =
     (let ip = ip_name infoIP
      in if IsInterfaceAllowed w ip
         then (case push_back_bound_socket env w ip prt of
                 (w', Threw e) \<Rightarrow> (w', Threw e)
               | (w', Returned _) \<Rightarrow> bind_allowed_interfaces env w' prt locNames)
         else bind_allowed_interfaces env w prt locNames)"

text \<open>The body of the \<^verbatim>\<open>try\<close> block of \<^verbatim>\<open>OpenAndBindOutputSockets\<close>.\<close>

definition OpenAndBindOutputSockets_try ::
  "os_env \<Rightarrow> UDPv4Transport \<Rightarrow> 32 word \<Rightarrow> UDPv4Transport \<times> unit outcome" where
  "OpenAndBindOutputSockets_try env w prt =
     (if mInterfaceWhiteList w = []
      then push_back_bound_socket env w address_v4_any prt
      else bind_allowed_interfaces env w prt (GetIP4s env))"

definition OpenAndBindOutputSockets ::
  "os_env \<Rightarrow> UDPv4Transport \<Rightarrow> 32 word \<Rightarrow> UDPv4Transport \<times> bool" where
  "OpenAndBindOutputSockets env w prt =
     (case OpenAndBindOutputSockets_try env w prt of
        (w', Threw e) \<Rightarrow> (w'\<lparr>mOutputSockets := (mOutputSockets w')(prt := None)\<rparr>, False)
      | (w', Returned _) \<Rightarrow> (w', True))"

text \<open>
  \<^verbatim>\<open>std::map::insert\<close> keeps an entry that is already there; the socket is built before
  the insertion, so a throw inserts nothing.
\<close>

definition OpenAndBindGranularOutputSocket ::
  "os_env \<Rightarrow> UDPv4Transport \<Rightarrow> Locator_t \<Rightarrow> UDPv4Transport \<times> bool" where
  "OpenAndBindGranularOutputSocket env w locator =
     (let ip = locator_IP4 locator
      in if \<not> IsInterfaceAllowed w ip then (w, False)
         else (case OpenAndBindUnicastOutputSocket env w (locator_IP4 locator) (port locator) of
                 (w', Threw e) \<Rightarrow>
                   (w'\<lparr>mGranularOutputSockets := (mGranularOutputSockets w')(locator := None)\<rparr>,
                    False)
               | (w', Returned s) \<Rightarrow>
                   (if mGranularOutputSockets w' locator = None
                    then w'\<lparr>mGranularOutputSockets := (mGranularOutputSockets w')(locator \<mapsto> s)\<rparr>
                    else w',
                    True)))"

definition OpenAndBindInputSockets ::
  "os_env \<Rightarrow> UDPv4Transport \<Rightarrow> 32 word \<Rightarrow> UDPv4Transport \<times> bool" where
  "OpenAndBindInputSockets env w prt =
     (case OpenAndBindInputSocket env w prt of
        (w', Threw e) \<Rightarrow> (w'\<lparr>mInputSockets := (mInputSockets w')(prt := None)\<rparr>, False)
      | (w', Returned s) \<Rightarrow>
          (if mInputSockets w' prt = None
           then w'\<lparr>mInputSockets := (mInputSockets w')(prt \<mapsto> s)\<rparr>
           else w',
           True))"

definition OpenOutputChannel ::
  "os_env \<Rightarrow> UDPv4Transport \<Rightarrow> Locator_t \<Rightarrow> UDPv4Transport \<times> bool" where
  "OpenOutputChannel env w locator =
     (if IsOutputChannelOpen w locator \<or> \<not> IsLocatorSupported locator then (w, False)
      else if mGranularMode w then OpenAndBindGranularOutputSocket env w locator
      else OpenAndBindOutputSockets env w (port locator))"

text \<open>
  The group is joined with the throwing \<^verbatim>\<open>set_option\<close>, outside every \<^verbatim>\<open>try\<close> block:
  a refusal leaves \<^verbatim>\<open>OpenInputChannel\<close> as a \<^verbatim>\<open>system_error\<close>.
\<close>

definition OpenInputChannel ::
  "os_env \<Rightarrow> UDPv4Transport \<Rightarrow> Locator_t \<Rightarrow> UDPv4Transport \<times> bool outcome" where
  "OpenInputChannel env w locator =
     (if \<not> IsLocatorSupported locator then (w, Returned False)
      else (case (if \<not> IsInputChannelOpen w locator
                  then OpenAndBindInputSockets env w (port locator)
                  else (w, False)) of
              (w1, success) \<Rightarrow>
                if IsMulticastAddress locator \<and> IsInputChannelOpen w1 locator
                then (case mInputSockets w1 (port locator) of
                        None \<Rightarrow> (w1, Threw out_of_range)
                      | Some socket \<Rightarrow>
                          (case os_op env (JoinGroup (sock_id socket) (locator_IP4 locator)) w1 of
                             (w2, ok) \<Rightarrow>
                               if ok then (w2, Returned success) else (w2, Threw system_error)))
                else (w1, Returned success)))"

text \<open>The loop of \<^verbatim>\<open>CloseOutputChannel\<close>: cancel and close every socket of the port.\<close>

fun cancel_and_close_all ::
  "os_env \<Rightarrow> UDPv4Transport \<Rightarrow> udp_socket list \<Rightarrow> UDPv4Transport \<times> bool" where
  "cancel_and_close_all env w [] = (w, True)"
| "cancel_and_close_all env w (socket # sockets) =
     (case os_ops env [Cancel (sock_id socket), Close (sock_id socket)] w of
        (w', ok) \<Rightarrow> if ok then cancel_and_close_all env w' sockets else (w', False))"

definition CloseOutputChannel ::
  "os_env \<Rightarrow> UDPv4Transport \<Rightarrow> Locator_t \<Rightarrow> UDPv4Transport \<times> bool outcome" where
  "CloseOutputChannel env w locator =
     (if \<not> IsOutputChannelOpen w locator then (w, Returned False)
      else if mGranularMode w
      then (case mGranularOutputSockets w locator of
              None \<Rightarrow> (w, Threw out_of_range)
            | Some socket \<Rightarrow>
                (case os_ops env [Cancel (sock_id socket), Close (sock_id socket)] w of
                   (w', ok) \<Rightarrow>
                     if ok
                     then (w'\<lparr>mGranularOutputSockets :=
                                (mGranularOutputSockets w')(locator := None)\<rparr>, Returned True)
                     else (w', Threw system_error)))
      else (case mOutputSockets w (port locator) of
              None \<Rightarrow> (w, Threw out_of_range)
            | Some sockets \<Rightarrow>
                (case cancel_and_close_all env w sockets of
                   (w', ok) \<Rightarrow>
                     if ok
                     then (w'\<lparr>mOutputSockets := (mOutputSockets w')(port locator := None)\<rparr>,
                           Returned True)
                     else (w', Threw system_error))))"

definition CloseInputChannel ::
  "os_env \<Rightarrow> UDPv4Transport \<Rightarrow> Locator_t \<Rightarrow> UDPv4Transport \<times> bool outcome" where
  "CloseInputChannel env w locator =
     (if \<not> IsInputChannelOpen w locator then (w, Returned False)
      else (case mInputSockets w (port locator) of
              None \<Rightarrow> (w, Threw out_of_range)
            | Some socket \<Rightarrow>
                (case os_ops env [Cancel (sock_id socket), Close (sock_id socket)] w of
                   (w', ok) \<Rightarrow>
                     if ok
                     then (w'\<lparr>mInputSockets := (mInputSockets w')(port locator := None)\<rparr>,
                           Returned True)
                     else (w', Threw system_error))))"

definition DoLocatorsMatch :: "UDPv4Transport \<Rightarrow> Locator_t \<Rightarrow> Locator_t \<Rightarrow> bool" where
  "DoLocatorsMatch w left right \<longleftrightarrow>
     (if mGranularMode w then left = right else port left = port right)"

definition RemoteToMainLocal :: "Locator_t \<Rightarrow> Locator_t" where
  "RemoteToMainLocal remote =
     (if \<not> IsLocatorSupported remote then Locator_from_port 0
      else remote\<lparr>address := replicate 16 0\<rparr>)"

text \<open>
  \<^verbatim>\<open>SendThroughSocket\<close> catches every exception of \<^verbatim>\<open>send_to\<close> and answers false.
\<close>

definition SendThroughSocket ::
  "os_env \<Rightarrow> UDPv4Transport \<Rightarrow> octet list \<Rightarrow> 32 word \<Rightarrow> Locator_t \<Rightarrow> udp_socket
     \<Rightarrow> UDPv4Transport \<times> bool" where
  "SendThroughSocket env w sendBuffer sendBufferSize remoteLocator socket =
     (let destinationEndpoint = (locator_IP4 remoteLocator, ucast (port remoteLocator))
      in os_op env (SendTo (sock_id socket) (take (unat sendBufferSize) sendBuffer)
                      destinationEndpoint) w)"

text \<open>The fan-out loop of \<^verbatim>\<open>Send\<close>: \<^verbatim>\<open>success |= SendThroughSocket(...)\<close>.\<close>

fun send_through_all ::
  "os_env \<Rightarrow> UDPv4Transport \<Rightarrow> octet list \<Rightarrow> 32 word \<Rightarrow> Locator_t \<Rightarrow> bool \<Rightarrow> udp_socket list
     \<Rightarrow> UDPv4Transport \<times> bool" where
  "send_through_all env w sendBuffer sendBufferSize remoteLocator success [] = (w, success)"
| "send_through_all env w sendBuffer sendBufferSize remoteLocator success (socket # sockets) =
     (case SendThroughSocket env w sendBuffer sendBufferSize remoteLocator socket of
        (w', sent) \<Rightarrow>
          send_through_all env w' sendBuffer sendBufferSize remoteLocator (success \<or> sent) sockets)"

definition Send ::
  "os_env \<Rightarrow> UDPv4Transport \<Rightarrow> octet list \<Rightarrow> 32 word \<Rightarrow> Locator_t \<Rightarrow> Locator_t
     \<Rightarrow> UDPv4Transport \<times> bool outcome" where
  "Send env w sendBuffer sendBufferSize localLocator remoteLocator =
     (if \<not> IsOutputChannelOpen w localLocator \<or> sendBufferSize > mSendBufferSize w
      then (w, Returned False)
      else if mGranularMode w
      then (case mGranularOutputSockets w localLocator of
              None \<Rightarrow> (w, Threw out_of_range)
            | Some socket \<Rightarrow>
                (case SendThroughSocket env w sendBuffer sendBufferSize remoteLocator socket of
                   (w', sent) \<Rightarrow> (w', Returned (False \<or> sent))))
      else (case mOutputSockets w (port localLocator) of
              None \<Rightarrow> (w, Threw out_of_range)
            | Some sockets \<Rightarrow>
                (case send_through_all env w sendBuffer sendBufferSize remoteLocator False sockets of
                   (w', success) \<Rightarrow> (w', Returned success))))"

definition EndpointToLocator :: "endpoint \<Rightarrow> Locator_t \<Rightarrow> Locator_t" where
  "EndpointToLocator ep locator =
     locator\<lparr>port := ucast (snd ep),
             address := take 12 (address locator) @ to_bytes (fst ep) @ drop 16 (address locator)\<rparr>"

text \<open>
  What a call of \<^verbatim>\<open>Receive\<close> leaves behind: the transport, the value returned, and the
  buffer and the two out-parameters as the caller finds them.
\<close>

record received =
  transport_after :: UDPv4Transport
  returned :: bool
  receiveBuffer_after :: "octet list"
  receiveBufferSize_after :: "32 word"
  remoteLocator_after :: Locator_t

text \<open>
  \<^verbatim>\<open>Receive\<close> submits one asynchronous receive and waits on the semaphore its handler
  posts. \<open>None\<close> is the call that never comes back: the handler never runs. A datagram
  longer than the capacity is cut to it.
\<close>

definition Receive ::
  "os_env \<Rightarrow> UDPv4Transport \<Rightarrow> octet list \<Rightarrow> 32 word \<Rightarrow> 32 word \<Rightarrow> Locator_t \<Rightarrow> Locator_t
     \<Rightarrow> received outcome option" where
  "Receive env w receiveBuffer receiveBufferCapacity receiveBufferSize localLocator remoteLocator =
     (let unchanged = \<lparr>transport_after = w, returned = False,
                       receiveBuffer_after = receiveBuffer,
                       receiveBufferSize_after = receiveBufferSize,
                       remoteLocator_after = remoteLocator\<rparr>
      in if \<not> IsInputChannelOpen w localLocator \<or> receiveBufferCapacity < mReceiveBufferSize w
         then Some (Returned unchanged)
         else if \<not> IsInputChannelOpen w localLocator then Some (Returned unchanged)
         else (case mInputSockets w (port localLocator) of
                 None \<Rightarrow> Some (Threw out_of_range)
               | Some socket \<Rightarrow>
                   (case receive_completes env (issued (mService w)) (sock_id socket) of
                      None \<Rightarrow> None
                    | Some Failed \<Rightarrow>
                        Some (Returned
                          (unchanged\<lparr>transport_after :=
                                       record_op (AsyncReceiveFrom (sock_id socket)
                                                    receiveBufferCapacity) False w,
                                     receiveBufferSize_after := 0\<rparr>))
                    | Some (Received datagram senderEndpoint) \<Rightarrow>
                        (let bytes = take (unat receiveBufferCapacity) datagram
                         in Some (Returned
                              \<lparr>transport_after =
                                 record_op (AsyncReceiveFrom (sock_id socket)
                                              receiveBufferCapacity) True w,
                               returned = True,
                               receiveBuffer_after = bytes @ drop (length bytes) receiveBuffer,
                               receiveBufferSize_after = of_nat (length bytes),
                               remoteLocator_after =
                                 EndpointToLocator senderEndpoint remoteLocator\<rparr>)))))"

section \<open>The receiver resource\<close>

text \<open>
  The three \<^verbatim>\<open>std::function\<close> members: empty (\<open>None\<close>) or the closure of the
  constructor, which captures the transport by reference and the locator by value; the
  captured locator stands for the closure.
\<close>

record ReceiverResource =
  mValid :: bool
  Cleanup :: "Locator_t option"
  ReceiveFromAssociatedChannel :: "Locator_t option"
  LocatorMapsToManagedChannel :: "Locator_t option"

definition ReceiverResource_new ::
  "os_env \<Rightarrow> UDPv4Transport \<Rightarrow> Locator_t \<Rightarrow> UDPv4Transport \<times> ReceiverResource outcome" where
  "ReceiverResource_new env transport locator =
     (case OpenInputChannel env transport locator of
        (w, Threw e) \<Rightarrow> (w, Threw e)
      | (w, Returned valid) \<Rightarrow>
          if \<not> valid
          then (w, Returned \<lparr>mValid = valid, Cleanup = None,
                             ReceiveFromAssociatedChannel = None,
                             LocatorMapsToManagedChannel = None\<rparr>)
          else (w, Returned \<lparr>mValid = valid, Cleanup = Some locator,
                             ReceiveFromAssociatedChannel = Some locator,
                             LocatorMapsToManagedChannel = Some locator\<rparr>))"

definition ReceiverResource_Receive ::
  "os_env \<Rightarrow> UDPv4Transport \<Rightarrow> ReceiverResource \<Rightarrow> octet list \<Rightarrow> 32 word \<Rightarrow> 32 word \<Rightarrow> Locator_t
     \<Rightarrow> received outcome option" where
  "ReceiverResource_Receive env transport r receiveBuffer receiveBufferCapacity receiveBufferSize
       originLocator =
     (case ReceiveFromAssociatedChannel r of
        Some locator \<Rightarrow>
          Receive env transport receiveBuffer receiveBufferCapacity receiveBufferSize locator
            originLocator
      | None \<Rightarrow>
          Some (Returned \<lparr>transport_after = transport, returned = False,
                          receiveBuffer_after = receiveBuffer,
                          receiveBufferSize_after = receiveBufferSize,
                          remoteLocator_after = originLocator\<rparr>))"

definition SupportsLocator :: "UDPv4Transport \<Rightarrow> ReceiverResource \<Rightarrow> Locator_t \<Rightarrow> bool" where
  "SupportsLocator transport r localLocator \<longleftrightarrow>
     (case LocatorMapsToManagedChannel r of
        Some locator \<Rightarrow> DoLocatorsMatch transport locator localLocator
      | None \<Rightarrow> False)"

text \<open>\<^verbatim>\<open>Cleanup\<close> calls \<^verbatim>\<open>CloseInputChannel\<close> and drops what it returns.\<close>

definition Abort ::
  "os_env \<Rightarrow> UDPv4Transport \<Rightarrow> ReceiverResource \<Rightarrow> UDPv4Transport \<times> unit outcome" where
  "Abort env transport r =
     (case Cleanup r of
        Some locator \<Rightarrow>
          (case CloseInputChannel env transport locator of
             (w, Threw e) \<Rightarrow> (w, Threw e)
           | (w, Returned _) \<Rightarrow> (w, Returned ()))
      | None \<Rightarrow> (transport, Returned ()))"

definition ReceiverResource_destroy ::
  "os_env \<Rightarrow> UDPv4Transport \<Rightarrow> ReceiverResource \<Rightarrow> UDPv4Transport \<times> unit outcome" where
  "ReceiverResource_destroy env transport r =
     (case Cleanup r of
        Some locator \<Rightarrow>
          (case CloseInputChannel env transport locator of
             (w, Threw e) \<Rightarrow> (w, Threw e)
           | (w, Returned _) \<Rightarrow> (w, Returned ()))
      | None \<Rightarrow> (transport, Returned ()))"

section \<open>A host, its operating system and some locators\<close>

text \<open>Concrete inputs, on which the statements below are evaluated.\<close>

definition unicast_locator :: Locator_t where
  "unicast_locator =
     \<lparr>kind = 1, port = 7400,
      address = [0, 0, 0, 0, 0, 0, 0, 0, 0, 0, 0, 0, 192, 168, 1, 10]\<rparr>"

definition multicast_locator :: Locator_t where
  "multicast_locator =
     \<lparr>kind = 1, port = 7400,
      address = [0, 0, 0, 0, 0, 0, 0, 0, 0, 0, 0, 0, 239, 255, 0, 1]\<rparr>"

definition udpv6_locator :: Locator_t where
  "udpv6_locator = \<lparr>kind = 2, port = 7400, address = replicate 16 0\<rparr>"

definition host_interfaces :: "info_IP list" where
  "host_interfaces =
     [\<lparr>ip_type = IP4_LOCAL, ip_name = address_v4 127 0 0 1\<rparr>,
      \<lparr>ip_type = IP4, ip_name = address_v4 192 168 1 10\<rparr>,
      \<lparr>ip_type = IP4, ip_name = address_v4 10 0 0 5\<rparr>]"

definition os_willing :: os_env where
  "os_willing = \<lparr>op_succeeds = (\<lambda>_ _. True), getIPs = host_interfaces,
                  receive_completes = (\<lambda>_ _. Some Failed)\<rparr>"

fun is_Bind :: "socket_op \<Rightarrow> bool" where
  "is_Bind (Bind _ _ _) = True"
| "is_Bind _ = False"

fun is_JoinGroup :: "socket_op \<Rightarrow> bool" where
  "is_JoinGroup (JoinGroup _ _) = True"
| "is_JoinGroup _ = False"

definition os_refusing_bind :: os_env where
  "os_refusing_bind = os_willing\<lparr>op_succeeds := (\<lambda>_ c. \<not> is_Bind c)\<rparr>"

definition os_refusing_join :: os_env where
  "os_refusing_join = os_willing\<lparr>op_succeeds := (\<lambda>_ c. \<not> is_JoinGroup c)\<rparr>"

definition receive_buffer :: "octet list" where
  "receive_buffer = replicate 65536 0"

definition default_transport :: UDPv4Transport where
  "default_transport = UDPv4Transport_of UDPv4TransportDescriptor_default"

definition sending_transport :: UDPv4Transport where
  "sending_transport = fst (OpenOutputChannel os_willing default_transport unicast_locator)"

definition receiving_transport :: UDPv4Transport where
  "receiving_transport = fst (OpenInputChannel os_willing default_transport unicast_locator)"

definition whitelisted_transport :: UDPv4Transport where
  "whitelisted_transport =
     UDPv4Transport_of (UDPv4TransportDescriptor_default
       \<lparr>descriptor_interfaceWhiteList := [address_v4 192 168 1 10, address_v4 10 0 0 5]\<rparr>)"

text \<open>A whitelist whose second entry is the address of no interface of the host.\<close>

definition stale_whitelist_transport :: UDPv4Transport where
  "stale_whitelist_transport =
     UDPv4Transport_of (UDPv4TransportDescriptor_default
       \<lparr>descriptor_interfaceWhiteList := [address_v4 192 168 1 10, address_v4 172 16 0 1]\<rparr>)"

definition granular_transport :: UDPv4Transport where
  "granular_transport =
     UDPv4Transport_of (UDPv4TransportDescriptor_default\<lparr>descriptor_granularMode := True\<rparr>)"

fun is_Cancel :: "socket_op \<Rightarrow> bool" where
  "is_Cancel (Cancel _) = True"
| "is_Cancel _ = False"

text \<open>
  An operating system that refuses a \<^verbatim>\<open>cancel\<close> the first time it is asked for it and
  accepts it when it is asked again.
\<close>

definition os_refusing_first_cancel :: os_env where
  "os_refusing_first_cancel =
     os_willing\<lparr>op_succeeds := (\<lambda>history c. if is_Cancel c then (c, False) \<in> set history else True)\<rparr>"

text \<open>
  An operating system that refuses to join a group on a socket that has joined it already
  (\<^verbatim>\<open>EADDRINUSE\<close>).
\<close>

definition os_refusing_repeated_join :: os_env where
  "os_refusing_repeated_join =
     os_willing\<lparr>op_succeeds :=
       (\<lambda>history c. if is_JoinGroup c then (c, True) \<notin> set history else True)\<rparr>"

definition joined_transport :: UDPv4Transport where
  "joined_transport =
     fst (OpenInputChannel os_refusing_repeated_join default_transport multicast_locator)"


text \<open>An operating system that refuses the bind on the second interface only.\<close>

definition os_refusing_second_bind :: os_env where
  "os_refusing_second_bind =
     os_willing\<lparr>op_succeeds := (\<lambda>_ c. c \<noteq> Bind 1 (address_v4 10 0 0 5) 7400)\<rparr>"

text \<open>The number of socket operations the operating system has refused so far.\<close>

definition refusals :: "UDPv4Transport \<Rightarrow> nat" where
  "refusals w = length (filter (\<lambda>entry. \<not> snd entry) (issued (mService w)))"

text \<open>
  What a call may change. \<open>pools_kept\<close>: only the io_service moved. \<open>output_port_only\<close>:
  beside the io_service, only the entry of one port of the shared output pool.
\<close>

definition pools_kept :: "UDPv4Transport \<Rightarrow> UDPv4Transport \<Rightarrow> bool" where
  "pools_kept w w' \<longleftrightarrow>
     mSendBufferSize w' = mSendBufferSize w \<and> mReceiveBufferSize w' = mReceiveBufferSize w \<and>
     mGranularMode w' = mGranularMode w \<and> mInterfaceWhiteList w' = mInterfaceWhiteList w \<and>
     mInputSockets w' = mInputSockets w \<and> mOutputSockets w' = mOutputSockets w \<and>
     mGranularOutputSockets w' = mGranularOutputSockets w"

definition output_port_only :: "32 word \<Rightarrow> UDPv4Transport \<Rightarrow> UDPv4Transport \<Rightarrow> bool" where
  "output_port_only prt w w' \<longleftrightarrow>
     mSendBufferSize w' = mSendBufferSize w \<and> mReceiveBufferSize w' = mReceiveBufferSize w \<and>
     mGranularMode w' = mGranularMode w \<and> mInterfaceWhiteList w' = mInterfaceWhiteList w \<and>
     mInputSockets w' = mInputSockets w \<and>
     mGranularOutputSockets w' = mGranularOutputSockets w \<and>
     (mOutputSockets w')(prt := None) = (mOutputSockets w)(prt := None)"

section \<open>Evaluation of the concrete inputs\<close>

lemmas ex_defs = unicast_locator_def multicast_locator_def udpv6_locator_def host_interfaces_def
  os_willing_def os_refusing_bind_def os_refusing_join_def os_refusing_second_bind_def
  os_refusing_first_cancel_def os_refusing_repeated_join_def
  default_transport_def whitelisted_transport_def stale_whitelist_transport_def
  granular_transport_def
  UDPv4Transport_of_def UDPv4TransportDescriptor_default_def maximumUDPSocketSize_def

lemmas op_defs = os_op_def record_op_def new_socket_def IsLocatorSupported_def LOCATOR_KIND_UDPv4_def
  IsInputChannelOpen_def IsOutputChannelOpen_def IsMulticastAddress_def GetIP4s_def IsInterfaceAllowed_def
  OpenAndBindUnicastOutputSocket_def OpenAndBindInputSocket_def output_sockets_at_def
  push_back_bound_socket_def OpenAndBindOutputSockets_try_def OpenAndBindOutputSockets_def
  OpenAndBindGranularOutputSocket_def OpenAndBindInputSockets_def OpenOutputChannel_def
  OpenInputChannel_def CloseOutputChannel_def CloseInputChannel_def address_v4_any_def locator_IP4_def
  Let_def

lemma sending_transport_simps:
  "IsOutputChannelOpen sending_transport unicast_locator"
  "mSendBufferSize sending_transport = 65536"
  by (simp_all add: sending_transport_def ex_defs op_defs)

lemma receiving_transport_simps:
  "IsInputChannelOpen receiving_transport unicast_locator"
  "mReceiveBufferSize receiving_transport = 65536"
  by (simp_all add: receiving_transport_def ex_defs op_defs)

lemma receiving_transport_socket:
  "mInputSockets receiving_transport 7400
     = Some \<lparr>sock_id = 0, bind_endpoint = (address_v4 0 0 0 0, 7400)\<rparr>"
  "issued (mService receiving_transport) =
     [(SockOpen 0, True), (SetReceiveBufferSize 0 65536, True), (SetReuseAddress 0, True),
      (SetMulticastLoopback 0, True), (Bind 0 (address_v4 0 0 0 0) 7400, True)]"
  by (simp_all add: receiving_transport_def ex_defs op_defs)

section \<open>Normalising a remote locator\<close>

text \<open>
  C2, as stated, at a locator of another kind: \<^verbatim>\<open>RemoteToMainLocal\<close> answers the
  locator converted from \<^verbatim>\<open>false\<close>, whose kind and port are not those of the remote
  locator.
\<close>

theorem RemoteToMainLocal_keeps_kind_and_port_counterexample:
  "\<not> (kind (RemoteToMainLocal \<lparr>kind = 2, port = 7400, address = replicate 16 0\<rparr>) = 2
      \<and> port (RemoteToMainLocal \<lparr>kind = 2, port = 7400, address = replicate 16 0\<rparr>) = 7400
      \<and> address (RemoteToMainLocal \<lparr>kind = 2, port = 7400, address = replicate 16 0\<rparr>)
          = replicate 16 0)"
  by (simp add: RemoteToMainLocal_def IsLocatorSupported_def LOCATOR_KIND_UDPv4_def
      Locator_from_port_def)

text \<open>
  C2, amended: for every remote locator of the supported kind (UDPv4),
  \<^verbatim>\<open>RemoteToMainLocal\<close> returns a locator with the kind and the port of the remote one
  and an address field of 16 zero bytes.
\<close>

theorem RemoteToMainLocal_supported:
  assumes "IsLocatorSupported remote"
  shows "kind (RemoteToMainLocal remote) = kind remote \<and>
         port (RemoteToMainLocal remote) = port remote \<and>
         address (RemoteToMainLocal remote) = replicate 16 0"
  using assms by (simp add: RemoteToMainLocal_def)

theorem RemoteToMainLocal_supported_witness:
  "IsLocatorSupported unicast_locator \<and>
   kind (RemoteToMainLocal unicast_locator) = 1 \<and>
   port (RemoteToMainLocal unicast_locator) = 7400 \<and>
   address (RemoteToMainLocal unicast_locator) = replicate 16 0"
proof -
  have s: "IsLocatorSupported unicast_locator"
    by (simp add: IsLocatorSupported_def LOCATOR_KIND_UDPv4_def unicast_locator_def)
  from RemoteToMainLocal_supported [OF s] s show ?thesis
    by (simp add: unicast_locator_def)
qed

section \<open>Size bounds\<close>

text \<open>
  C5: \<^verbatim>\<open>Send\<close> with a size above the configured send-buffer bound returns false and
  \<^verbatim>\<open>Receive\<close> with a capacity below the configured receive-buffer bound returns false,
  each leaving the transport as it was: no socket operation is issued. This holds whether
  or not the channel is open, so in particular for every open one.
\<close>

theorem size_bounds_reject_before_io:
  "(sendBufferSize > mSendBufferSize w \<longrightarrow>
      Send env w sendBuffer sendBufferSize localLocator remoteLocator = (w, Returned False)) \<and>
   (receiveBufferCapacity < mReceiveBufferSize w \<longrightarrow>
      Receive env w receiveBuffer receiveBufferCapacity receiveBufferSize localLocator remoteLocator
        = Some (Returned \<lparr>transport_after = w, returned = False,
                          receiveBuffer_after = receiveBuffer,
                          receiveBufferSize_after = receiveBufferSize,
                          remoteLocator_after = remoteLocator\<rparr>))"
  by (simp add: Send_def Receive_def)

theorem size_bounds_reject_before_io_witness:
  "IsOutputChannelOpen sending_transport unicast_locator \<and>
   65537 > mSendBufferSize sending_transport \<and>
   Send os_willing sending_transport (replicate 65537 0) 65537 unicast_locator unicast_locator
     = (sending_transport, Returned False) \<and>
   IsInputChannelOpen receiving_transport unicast_locator \<and>
   100 < mReceiveBufferSize receiving_transport \<and>
   Receive os_willing receiving_transport (replicate 100 0) 100 7 unicast_locator udpv6_locator
     = Some (Returned \<lparr>transport_after = receiving_transport, returned = False,
                       receiveBuffer_after = replicate 100 0,
                       receiveBufferSize_after = 7,
                       remoteLocator_after = udpv6_locator\<rparr>)"
  using size_bounds_reject_before_io [where w = sending_transport and sendBufferSize = 65537
      and env = os_willing and sendBuffer = "replicate 65537 0"
      and localLocator = unicast_locator and remoteLocator = unicast_locator]
    size_bounds_reject_before_io [where w = receiving_transport and receiveBufferCapacity = 100
      and env = os_willing and receiveBuffer = "replicate 100 0" and receiveBufferSize = 7
      and localLocator = unicast_locator and remoteLocator = udpv6_locator]
  by (simp add: sending_transport_simps receiving_transport_simps)

text \<open>
  C9: when \<^verbatim>\<open>Receive\<close> fails fast (the input channel is not open, or the capacity is
  below the configured receive bound) the buffer, the size out-parameter and the remote
  locator out-parameter are what they were, and so is the transport. The size is set to
  zero on the other failing path: a request was submitted and completed with an error.
\<close>

theorem Receive_fail_fast_frame:
  "(\<not> IsInputChannelOpen w localLocator \<or> receiveBufferCapacity < mReceiveBufferSize w \<longrightarrow>
      Receive env w receiveBuffer receiveBufferCapacity receiveBufferSize localLocator remoteLocator
        = Some (Returned \<lparr>transport_after = w, returned = False,
                          receiveBuffer_after = receiveBuffer,
                          receiveBufferSize_after = receiveBufferSize,
                          remoteLocator_after = remoteLocator\<rparr>)) \<and>
   (IsInputChannelOpen w localLocator \<and> \<not> receiveBufferCapacity < mReceiveBufferSize w \<and>
    mInputSockets w (port localLocator) = Some socket \<and>
    receive_completes env (issued (mService w)) (sock_id socket) = Some Failed \<longrightarrow>
      Receive env w receiveBuffer receiveBufferCapacity receiveBufferSize localLocator remoteLocator
        = Some (Returned \<lparr>transport_after =
                            record_op (AsyncReceiveFrom (sock_id socket) receiveBufferCapacity) False w,
                          returned = False,
                          receiveBuffer_after = receiveBuffer,
                          receiveBufferSize_after = 0,
                          remoteLocator_after = remoteLocator\<rparr>))"
  by (simp add: Receive_def)

theorem Receive_fail_fast_frame_witness:
  "\<not> IsInputChannelOpen default_transport unicast_locator \<and>
   Receive os_willing default_transport receive_buffer 65536 7 unicast_locator udpv6_locator
     = Some (Returned \<lparr>transport_after = default_transport, returned = False,
                       receiveBuffer_after = receive_buffer,
                       receiveBufferSize_after = 7,
                       remoteLocator_after = udpv6_locator\<rparr>) \<and>
   IsInputChannelOpen receiving_transport unicast_locator \<and>
   receiveBufferSize_after
     (case Receive os_willing receiving_transport receive_buffer 65536 7 unicast_locator
             udpv6_locator of Some (Returned res) \<Rightarrow> res) = 0"
proof -
  have closed: "\<not> IsInputChannelOpen default_transport unicast_locator"
    by (simp add: ex_defs op_defs)
  have p: "port unicast_locator = 7400" by (simp add: unicast_locator_def)
  have c: "receive_completes os_willing (issued (mService receiving_transport)) 0 = Some Failed"
    by (simp add: os_willing_def)
  from Receive_fail_fast_frame [where w = default_transport and localLocator = unicast_locator
      and env = os_willing and receiveBuffer = receive_buffer and receiveBufferCapacity = 65536
      and receiveBufferSize = 7 and remoteLocator = udpv6_locator]
    Receive_fail_fast_frame [where w = receiving_transport and localLocator = unicast_locator
      and env = os_willing and receiveBuffer = receive_buffer and receiveBufferCapacity = 65536
      and receiveBufferSize = 7 and remoteLocator = udpv6_locator
      and socket = "\<lparr>sock_id = 0, bind_endpoint = (address_v4 0 0 0 0, 7400)\<rparr>"]
    closed c
  show ?thesis
    by (simp add: receiving_transport_simps receiving_transport_socket(1) p)
qed

section \<open>Receiver resources\<close>

text \<open>
  C8: a receiver resource whose constructor found \<^verbatim>\<open>OpenInputChannel\<close> returning
  false answers false to every \<^verbatim>\<open>Receive\<close>, on any transport state and under any
  operating system, without a call of the transport (the state and the out-parameters are
  untouched), and false to every \<^verbatim>\<open>SupportsLocator\<close>.
\<close>

theorem invalid_resource_is_inert:
  assumes "snd (ReceiverResource_new env transport locator) = Returned r" and "\<not> mValid r"
  shows "ReceiverResource_Receive env' w r receiveBuffer receiveBufferCapacity receiveBufferSize
           originLocator
         = Some (Returned \<lparr>transport_after = w, returned = False,
                           receiveBuffer_after = receiveBuffer,
                           receiveBufferSize_after = receiveBufferSize,
                           remoteLocator_after = originLocator\<rparr>) \<and>
         \<not> SupportsLocator w r localLocator"
proof -
  from assms have "ReceiveFromAssociatedChannel r = None \<and> LocatorMapsToManagedChannel r = None"
    by (auto simp: ReceiverResource_new_def split: prod.splits outcome.splits if_splits)
  then show ?thesis
    by (simp add: ReceiverResource_Receive_def SupportsLocator_def)
qed

lemma refused_resource:
  "snd (ReceiverResource_new os_refusing_bind default_transport unicast_locator)
     = Returned \<lparr>mValid = False, Cleanup = None, ReceiveFromAssociatedChannel = None,
                 LocatorMapsToManagedChannel = None\<rparr>"
  by (simp add: ReceiverResource_new_def ex_defs op_defs)

theorem invalid_resource_is_inert_witness:
  "snd (ReceiverResource_new os_refusing_bind default_transport unicast_locator)
     = Returned \<lparr>mValid = False, Cleanup = None, ReceiveFromAssociatedChannel = None,
                 LocatorMapsToManagedChannel = None\<rparr> \<and>
   ReceiverResource_Receive os_willing receiving_transport
       \<lparr>mValid = False, Cleanup = None, ReceiveFromAssociatedChannel = None,
        LocatorMapsToManagedChannel = None\<rparr> receive_buffer 65536 7 udpv6_locator
     = Some (Returned \<lparr>transport_after = receiving_transport, returned = False,
                       receiveBuffer_after = receive_buffer,
                       receiveBufferSize_after = 7,
                       remoteLocator_after = udpv6_locator\<rparr>) \<and>
   \<not> SupportsLocator receiving_transport
       \<lparr>mValid = False, Cleanup = None, ReceiveFromAssociatedChannel = None,
        LocatorMapsToManagedChannel = None\<rparr> unicast_locator"
  using invalid_resource_is_inert [OF refused_resource, where env' = os_willing
      and w = receiving_transport and receiveBuffer = receive_buffer
      and receiveBufferCapacity = 65536 and receiveBufferSize = 7
      and originLocator = udpv6_locator and localLocator = unicast_locator]
    refused_resource
  by simp

section \<open>What the socket primitives change\<close>

lemma pools_kept_refl: "pools_kept w w"
  by (simp add: pools_kept_def)

lemma pools_kept_trans: "pools_kept a b \<Longrightarrow> pools_kept b c \<Longrightarrow> pools_kept a c"
  by (simp add: pools_kept_def)

lemma os_op_pools_kept: "pools_kept w (fst (os_op env c w))"
  by (simp add: pools_kept_def os_op_def record_op_def Let_def)

lemma os_op_refusals:
  "refusals (fst (os_op env c w)) = refusals w + (if snd (os_op env c w) then 0 else 1)"
  by (simp add: os_op_def record_op_def Let_def refusals_def)

lemma os_op_constructed: "constructed (mService (fst (os_op env c w))) = constructed (mService w)"
  by (simp add: os_op_def record_op_def Let_def)

lemma os_ops_pools_kept: "pools_kept w (fst (os_ops env cs w))"
proof (induction cs arbitrary: w)
  case Nil show ?case by (simp add: pools_kept_refl)
next
  case (Cons c cs)
  show ?case
  proof (cases "snd (os_op env c w)")
    case True
    then have "fst (os_ops env (c # cs) w) = fst (os_ops env cs (fst (os_op env c w)))"
      by (simp add: split_def)
    then show ?thesis
      using os_op_pools_kept [of w env c] Cons [of "fst (os_op env c w)"]
      by (simp add: pools_kept_def)
  next
    case False
    then have "fst (os_ops env (c # cs) w) = fst (os_op env c w)"
      by (simp add: split_def)
    then show ?thesis using os_op_pools_kept [of w env c] by simp
  qed
qed

lemma os_ops_refusals:
  "refusals w \<le> refusals (fst (os_ops env cs w)) \<and>
   (snd (os_ops env cs w) \<longleftrightarrow> refusals (fst (os_ops env cs w)) = refusals w)"
proof (induction cs arbitrary: w)
  case Nil show ?case by simp
next
  case (Cons c cs)
  show ?case
  proof (cases "snd (os_op env c w)")
    case True
    then have "os_ops env (c # cs) w = os_ops env cs (fst (os_op env c w))"
      by (simp add: split_def)
    then show ?thesis
      using os_op_refusals [of env c w] Cons [of "fst (os_op env c w)"] True
      by simp
  next
    case False
    then have "os_ops env (c # cs) w = (fst (os_op env c w), False)"
      by (simp add: split_def)
    then show ?thesis using os_op_refusals [of env c w] False by simp
  qed
qed

lemma os_ops_constructed:
  "constructed (mService (fst (os_ops env cs w))) = constructed (mService w)"
proof (induction cs arbitrary: w)
  case Nil show ?case by simp
next
  case (Cons c cs)
  show ?case
    using Cons [of "fst (os_op env c w)"] os_op_constructed [of env c w]
    by (cases "snd (os_op env c w)") (simp_all add: split_def)
qed

lemma new_socket_facts:
  "pools_kept w (fst (new_socket w))"
  "refusals (fst (new_socket w)) = refusals w"
  "constructed (mService (fst (new_socket w))) = Suc (constructed (mService w))"
  "snd (new_socket w) = constructed (mService w)"
  by (simp_all add: new_socket_def pools_kept_def refusals_def)

lemma OpenAndBindUnicastOutputSocket_facts:
  "pools_kept w (fst (OpenAndBindUnicastOutputSocket env w ip prt))"
  "refusals w \<le> refusals (fst (OpenAndBindUnicastOutputSocket env w ip prt))"
  "constructed (mService (fst (OpenAndBindUnicastOutputSocket env w ip prt)))
     = Suc (constructed (mService w))"
  "snd (OpenAndBindUnicastOutputSocket env w ip prt)
     = (if refusals (fst (OpenAndBindUnicastOutputSocket env w ip prt)) = refusals w
        then Returned \<lparr>sock_id = constructed (mService w), bind_endpoint = (ip, ucast prt)\<rparr>
        else Threw system_error)"
proof -
  let ?w0 = "fst (new_socket w)"
  let ?cs = "[SockOpen (constructed (mService w)),
              SetSendBufferSize (constructed (mService w)) (mSendBufferSize ?w0),
              Bind (constructed (mService w)) ip (ucast prt)]"
  have u: "OpenAndBindUnicastOutputSocket env w ip prt
      = (fst (os_ops env ?cs ?w0),
         if snd (os_ops env ?cs ?w0)
         then Returned \<lparr>sock_id = constructed (mService w), bind_endpoint = (ip, ucast prt)\<rparr>
         else Threw system_error)"
    unfolding OpenAndBindUnicastOutputSocket_def
    by (simp add: split_def new_socket_facts(4) del: os_ops.simps)
  show "pools_kept w (fst (OpenAndBindUnicastOutputSocket env w ip prt))"
    using new_socket_facts(1) [of w] os_ops_pools_kept [of ?w0 env ?cs]
    unfolding u fst_conv by (rule pools_kept_trans)
  show "refusals w \<le> refusals (fst (OpenAndBindUnicastOutputSocket env w ip prt))"
    using os_ops_refusals [of ?w0 env ?cs] unfolding u fst_conv
    by (simp add: new_socket_facts(2) del: os_ops.simps)
  show "constructed (mService (fst (OpenAndBindUnicastOutputSocket env w ip prt)))
     = Suc (constructed (mService w))"
    unfolding u fst_conv by (simp add: os_ops_constructed new_socket_facts(3) del: os_ops.simps)
  show "snd (OpenAndBindUnicastOutputSocket env w ip prt)
     = (if refusals (fst (OpenAndBindUnicastOutputSocket env w ip prt)) = refusals w
        then Returned \<lparr>sock_id = constructed (mService w), bind_endpoint = (ip, ucast prt)\<rparr>
        else Threw system_error)"
    using os_ops_refusals [of ?w0 env ?cs] unfolding u fst_conv snd_conv
    by (simp add: new_socket_facts(2) del: os_ops.simps)
qed

lemma output_port_only_refl: "output_port_only prt w w"
  by (simp add: output_port_only_def)

lemma output_port_only_trans:
  "output_port_only prt a b \<Longrightarrow> output_port_only prt b c \<Longrightarrow> output_port_only prt a c"
  by (simp add: output_port_only_def)

lemma output_port_only_allowed:
  "output_port_only prt w w' \<Longrightarrow> IsInterfaceAllowed w' = IsInterfaceAllowed w"
  by (simp add: output_port_only_def IsInterfaceAllowed_def fun_eq_iff)

lemma push_back_bound_socket_facts:
  "output_port_only prt w (fst (push_back_bound_socket env w ip prt))"
  "refusals w \<le> refusals (fst (push_back_bound_socket env w ip prt))"
  "constructed (mService (fst (push_back_bound_socket env w ip prt)))
     = Suc (constructed (mService w))"
  "snd (push_back_bound_socket env w ip prt)
     = (if refusals (fst (push_back_bound_socket env w ip prt)) = refusals w
        then Returned () else Threw system_error)"
  "refusals (fst (push_back_bound_socket env w ip prt)) = refusals w \<Longrightarrow>
     mOutputSockets (fst (push_back_bound_socket env w ip prt)) prt
       = Some (output_sockets_at w prt @
               [\<lparr>sock_id = constructed (mService w), bind_endpoint = (ip, ucast prt)\<rparr>])"
proof -
  let ?w0 = "w\<lparr>mOutputSockets := (mOutputSockets w)(prt \<mapsto> output_sockets_at w prt)\<rparr>"
  let ?u = "OpenAndBindUnicastOutputSocket env ?w0 ip prt"
  let ?s = "\<lparr>sock_id = constructed (mService w), bind_endpoint = (ip, ucast prt)\<rparr>"
  have r0: "refusals ?w0 = refusals w" and c0: "constructed (mService ?w0) = constructed (mService w)"
    by (simp_all add: refusals_def)
  have k: "pools_kept ?w0 (fst ?u)" by (rule OpenAndBindUnicastOutputSocket_facts(1))
  have at: "output_sockets_at (fst ?u) prt = output_sockets_at w prt"
    using k by (simp add: pools_kept_def output_sockets_at_def)
  have sn: "snd ?u = (if refusals (fst ?u) = refusals w then Returned ?s else Threw system_error)"
    using OpenAndBindUnicastOutputSocket_facts(4) [where env = env and w = ?w0 and ip = ip and prt = prt] by (simp add: r0 c0)
  have p: "push_back_bound_socket env w ip prt
      = (if refusals (fst ?u) = refusals w
         then ((fst ?u)\<lparr>mOutputSockets :=
                  (mOutputSockets (fst ?u))(prt \<mapsto> output_sockets_at w prt @ [?s])\<rparr>, Returned ())
         else (fst ?u, Threw system_error))"
    unfolding push_back_bound_socket_def Let_def
    by (cases ?u) (use sn at in \<open>auto split: outcome.splits\<close>)
  have rr: "refusals ((fst ?u)\<lparr>mOutputSockets := m\<rparr>) = refusals (fst ?u)" for m
    by (simp add: refusals_def)
  show "output_port_only prt w (fst (push_back_bound_socket env w ip prt))"
    using k unfolding p by (simp add: output_port_only_def pools_kept_def)
  show "refusals w \<le> refusals (fst (push_back_bound_socket env w ip prt))"
    using OpenAndBindUnicastOutputSocket_facts(2) [where env = env and w = ?w0 and ip = ip and prt = prt] unfolding p
    by (simp add: r0 rr)
  show "constructed (mService (fst (push_back_bound_socket env w ip prt)))
     = Suc (constructed (mService w))"
    using OpenAndBindUnicastOutputSocket_facts(3) [where env = env and w = ?w0 and ip = ip and prt = prt] unfolding p
    by (simp add: c0)
  show "snd (push_back_bound_socket env w ip prt)
     = (if refusals (fst (push_back_bound_socket env w ip prt)) = refusals w
        then Returned () else Threw system_error)"
    unfolding p by (simp add: rr)
  show "mOutputSockets (fst (push_back_bound_socket env w ip prt)) prt
       = Some (output_sockets_at w prt @ [?s])"
    if "refusals (fst (push_back_bound_socket env w ip prt)) = refusals w"
    using that unfolding p by (simp add: rr split: if_splits)
qed

lemma output_sockets_at_pushed:
  "mOutputSockets w prt = Some ss \<Longrightarrow> output_sockets_at w prt = ss"
  by (simp add: output_sockets_at_def)

lemma bind_allowed_interfaces_facts:
  "output_port_only prt w (fst (bind_allowed_interfaces env w prt ips)) \<and>
   refusals w \<le> refusals (fst (bind_allowed_interfaces env w prt ips)) \<and>
   snd (bind_allowed_interfaces env w prt ips)
     = (if refusals (fst (bind_allowed_interfaces env w prt ips)) = refusals w
        then Returned () else Threw system_error) \<and>
   (refusals (fst (bind_allowed_interfaces env w prt ips)) = refusals w \<longrightarrow>
      map bind_endpoint (output_sockets_at (fst (bind_allowed_interfaces env w prt ips)) prt)
        = map bind_endpoint (output_sockets_at w prt) @
          map (\<lambda>ip. (ip, ucast prt)) (filter (IsInterfaceAllowed w) (map ip_name ips)) \<and>
      constructed (mService (fst (bind_allowed_interfaces env w prt ips)))
        = constructed (mService w) + length (filter (IsInterfaceAllowed w) (map ip_name ips)))"
proof (induction ips arbitrary: w)
  case Nil
  show ?case by (simp add: output_port_only_refl)
next
  case (Cons infoIP locNames)
  let ?ip = "ip_name infoIP"
  show ?case
  proof (cases "IsInterfaceAllowed w ?ip")
    case False
    then have e: "bind_allowed_interfaces env w prt (infoIP # locNames)
        = bind_allowed_interfaces env w prt locNames"
      by simp
    show ?thesis unfolding e using Cons [of w] False by simp
  next
    case True
    let ?P = "push_back_bound_socket env w ?ip prt"
    note pf = push_back_bound_socket_facts [where prt = prt and w = w and env = env and ip = ?ip]
    show ?thesis
    proof (cases "refusals (fst ?P) = refusals w")
      case False
      then have "snd ?P = Threw system_error" using pf(4) by simp
      then have e: "bind_allowed_interfaces env w prt (infoIP # locNames)
          = (fst ?P, Threw system_error)"
        using True by (cases ?P) simp
      show ?thesis unfolding e using False pf(1,2) by simp
    next
      case same: True
      then have "snd ?P = Returned ()" using pf(4) by simp
      then have e: "bind_allowed_interfaces env w prt (infoIP # locNames)
          = bind_allowed_interfaces env (fst ?P) prt locNames"
        using True by (cases ?P) simp
      have al: "IsInterfaceAllowed (fst ?P) = IsInterfaceAllowed w"
        using pf(1) by (rule output_port_only_allowed)
      have at: "output_sockets_at (fst ?P) prt = output_sockets_at w prt @
          [\<lparr>sock_id = constructed (mService w), bind_endpoint = (?ip, ucast prt)\<rparr>]"
        using pf(5) [OF same] by (rule output_sockets_at_pushed)
      show ?thesis
        unfolding e
        using Cons [of "fst ?P"] pf(1) pf(3) same True
        by (auto simp: al at intro: output_port_only_trans)
    qed
  qed
qed

lemma OpenAndBindOutputSockets_try_facts:
  "output_port_only prt w (fst (OpenAndBindOutputSockets_try env w prt))"
  "refusals w \<le> refusals (fst (OpenAndBindOutputSockets_try env w prt))"
  "snd (OpenAndBindOutputSockets_try env w prt)
     = (if refusals (fst (OpenAndBindOutputSockets_try env w prt)) = refusals w
        then Returned () else Threw system_error)"
  "refusals (fst (OpenAndBindOutputSockets_try env w prt)) = refusals w \<Longrightarrow>
     map bind_endpoint (output_sockets_at (fst (OpenAndBindOutputSockets_try env w prt)) prt)
       = map bind_endpoint (output_sockets_at w prt) @
         (if mInterfaceWhiteList w = [] then [(address_v4_any, ucast prt)]
          else map (\<lambda>ip. (ip, ucast prt))
                 (filter (IsInterfaceAllowed w) (map ip_name (GetIP4s env))))"
  "refusals (fst (OpenAndBindOutputSockets_try env w prt)) = refusals w \<Longrightarrow>
     constructed (mService (fst (OpenAndBindOutputSockets_try env w prt)))
       = constructed (mService w) +
         (if mInterfaceWhiteList w = [] then 1
          else length (filter (IsInterfaceAllowed w) (map ip_name (GetIP4s env))))"
proof -
  note pf = push_back_bound_socket_facts [where prt = prt and w = w and env = env and ip = address_v4_any]
  note bf = bind_allowed_interfaces_facts [where prt = prt and w = w and env = env and ips = "GetIP4s env"]
  show "output_port_only prt w (fst (OpenAndBindOutputSockets_try env w prt))"
    using pf(1) bf by (simp add: OpenAndBindOutputSockets_try_def)
  show "refusals w \<le> refusals (fst (OpenAndBindOutputSockets_try env w prt))"
    using pf(2) bf by (simp add: OpenAndBindOutputSockets_try_def)
  show "snd (OpenAndBindOutputSockets_try env w prt)
     = (if refusals (fst (OpenAndBindOutputSockets_try env w prt)) = refusals w
        then Returned () else Threw system_error)"
    using pf(4) bf by (simp add: OpenAndBindOutputSockets_try_def)
  show "map bind_endpoint (output_sockets_at (fst (OpenAndBindOutputSockets_try env w prt)) prt)
       = map bind_endpoint (output_sockets_at w prt) @
         (if mInterfaceWhiteList w = [] then [(address_v4_any, ucast prt)]
          else map (\<lambda>ip. (ip, ucast prt))
                 (filter (IsInterfaceAllowed w) (map ip_name (GetIP4s env))))"
    if "refusals (fst (OpenAndBindOutputSockets_try env w prt)) = refusals w"
  proof (cases "mInterfaceWhiteList w = []")
    case True
    with that have "refusals (fst (push_back_bound_socket env w address_v4_any prt)) = refusals w"
      by (simp add: OpenAndBindOutputSockets_try_def)
    from pf(5) [OF this] True show ?thesis
      by (simp add: OpenAndBindOutputSockets_try_def output_sockets_at_pushed)
  next
    case False
    with that have "refusals (fst (bind_allowed_interfaces env w prt (GetIP4s env))) = refusals w"
      by (simp add: OpenAndBindOutputSockets_try_def)
    with bf have "map bind_endpoint
          (output_sockets_at (fst (bind_allowed_interfaces env w prt (GetIP4s env))) prt)
        = map bind_endpoint (output_sockets_at w prt) @
          map (\<lambda>ip. (ip, ucast prt)) (filter (IsInterfaceAllowed w) (map ip_name (GetIP4s env)))"
      by blast
    with False show ?thesis by (simp add: OpenAndBindOutputSockets_try_def)
  qed
  show "constructed (mService (fst (OpenAndBindOutputSockets_try env w prt)))
       = constructed (mService w) +
         (if mInterfaceWhiteList w = [] then 1
          else length (filter (IsInterfaceAllowed w) (map ip_name (GetIP4s env))))"
    if "refusals (fst (OpenAndBindOutputSockets_try env w prt)) = refusals w"
  proof (cases "mInterfaceWhiteList w = []")
    case True
    then show ?thesis using pf(3) by (simp add: OpenAndBindOutputSockets_try_def)
  next
    case False
    with that have "refusals (fst (bind_allowed_interfaces env w prt (GetIP4s env))) = refusals w"
      by (simp add: OpenAndBindOutputSockets_try_def)
    with bf have "constructed (mService (fst (bind_allowed_interfaces env w prt (GetIP4s env))))
        = constructed (mService w) +
          length (filter (IsInterfaceAllowed w) (map ip_name (GetIP4s env)))"
      by blast
    with False show ?thesis by (simp add: OpenAndBindOutputSockets_try_def)
  qed
qed

lemma refusals_update [simp]:
  "refusals (w\<lparr>mOutputSockets := m\<rparr>) = refusals w"
  "refusals (w\<lparr>mGranularOutputSockets := g\<rparr>) = refusals w"
  "refusals (w\<lparr>mInputSockets := i\<rparr>) = refusals w"
  by (simp_all add: refusals_def)

lemma OpenAndBindOutputSockets_eq:
  "OpenAndBindOutputSockets env w prt
     = (if refusals (fst (OpenAndBindOutputSockets_try env w prt)) = refusals w
        then (fst (OpenAndBindOutputSockets_try env w prt), True)
        else ((fst (OpenAndBindOutputSockets_try env w prt))
                \<lparr>mOutputSockets :=
                   (mOutputSockets (fst (OpenAndBindOutputSockets_try env w prt)))(prt := None)\<rparr>,
              False))"
  using OpenAndBindOutputSockets_try_facts(3) [of env w prt]
  by (cases "OpenAndBindOutputSockets_try env w prt")
     (auto simp: OpenAndBindOutputSockets_def split: outcome.splits)

lemma OpenAndBindGranularOutputSocket_refused:
  assumes "refusals (fst (OpenAndBindGranularOutputSocket env w locator)) \<noteq> refusals w"
  shows "snd (OpenAndBindGranularOutputSocket env w locator) = False \<and>
         mOutputSockets (fst (OpenAndBindGranularOutputSocket env w locator)) = mOutputSockets w \<and>
         mInputSockets (fst (OpenAndBindGranularOutputSocket env w locator)) = mInputSockets w \<and>
         mGranularOutputSockets (fst (OpenAndBindGranularOutputSocket env w locator))
           = (mGranularOutputSockets w)(locator := None)"
proof -
  let ?u = "OpenAndBindUnicastOutputSocket env w (locator_IP4 locator) (port locator)"
  note uf = OpenAndBindUnicastOutputSocket_facts
    [where env = env and w = w and ip = "locator_IP4 locator" and prt = "port locator"]
  from assms have al: "IsInterfaceAllowed w (locator_IP4 locator)"
    by (auto simp: OpenAndBindGranularOutputSocket_def Let_def split: if_splits)
  have "refusals (fst ?u) \<noteq> refusals w"
  proof
    assume "refusals (fst ?u) = refusals w"
    with uf(4) have "snd ?u = Returned \<lparr>sock_id = constructed (mService w),
        bind_endpoint = (locator_IP4 locator, ucast (port locator))\<rparr>"
      by simp
    with al \<open>refusals (fst ?u) = refusals w\<close>
    have "refusals (fst (OpenAndBindGranularOutputSocket env w locator)) = refusals w"
      by (cases ?u) (simp add: OpenAndBindGranularOutputSocket_def Let_def)
    with assms show False by simp
  qed
  with uf(4) have "snd ?u = Threw system_error" by simp
  with al have "OpenAndBindGranularOutputSocket env w locator
      = ((fst ?u)\<lparr>mGranularOutputSockets := (mGranularOutputSockets (fst ?u))(locator := None)\<rparr>,
         False)"
    by (cases ?u) (simp add: OpenAndBindGranularOutputSocket_def Let_def)
  then show ?thesis using uf(1) by (simp add: pools_kept_def)
qed

lemma length_filter_whitelist:
  assumes "distinct wl" and "distinct ips" and "set wl \<subseteq> set ips"
  shows "length (filter (\<lambda>ip. ip \<in> set wl) ips) = length wl"
proof -
  have "length (filter (\<lambda>ip. ip \<in> set wl) ips) = card ({ip. ip \<in> set wl} \<inter> set ips)"
    using assms(2) by (rule distinct_length_filter)
  also have "{ip. ip \<in> set wl} \<inter> set ips = set wl" using assms(3) by auto
  also have "card (set wl) = length wl" using assms(1) by (rule distinct_card)
  finally show ?thesis .
qed

section \<open>Opening output channels\<close>

text \<open>
  C4: if the operating system refuses a socket operation while an output channel is being
  opened, in the shared or in the granular topology (the refusals recorded by the
  io_service have grown over the call), then \<^verbatim>\<open>OpenOutputChannel\<close> returns false and
  the output pools, shared and granular, and the input pool are what they were before the
  call: the entry begun for the channel is gone.
\<close>

theorem output_open_failure_rolls_back:
  assumes "refusals (fst (OpenOutputChannel env w locator)) \<noteq> refusals w"
  shows "snd (OpenOutputChannel env w locator) = False \<and>
         mOutputSockets (fst (OpenOutputChannel env w locator)) = mOutputSockets w \<and>
         mGranularOutputSockets (fst (OpenOutputChannel env w locator)) = mGranularOutputSockets w \<and>
         mInputSockets (fst (OpenOutputChannel env w locator)) = mInputSockets w"
proof -
  from assms have closed: "\<not> IsOutputChannelOpen w locator" and sup: "IsLocatorSupported locator"
    by (auto simp: OpenOutputChannel_def split: if_splits)
  show ?thesis
  proof (cases "mGranularMode w")
    case True
    then have e: "OpenOutputChannel env w locator = OpenAndBindGranularOutputSocket env w locator"
      using closed sup by (simp add: OpenOutputChannel_def)
    from closed sup True have "mGranularOutputSockets w locator = None"
      by (simp add: IsOutputChannelOpen_def)
    then have "(mGranularOutputSockets w)(locator := None) = mGranularOutputSockets w"
      by (simp add: fun_upd_idem)
    with OpenAndBindGranularOutputSocket_refused [of env w locator] assms show ?thesis
      unfolding e by simp
  next
    case False
    let ?t = "fst (OpenAndBindOutputSockets_try env w (port locator))"
    have e: "OpenOutputChannel env w locator = OpenAndBindOutputSockets env w (port locator)"
      using closed sup False by (simp add: OpenOutputChannel_def)
    from closed sup False have none: "mOutputSockets w (port locator) = None"
      by (simp add: IsOutputChannelOpen_def)
    have r: "refusals ?t \<noteq> refusals w"
      using assms unfolding e OpenAndBindOutputSockets_eq by (auto split: if_splits)
    then have o: "OpenAndBindOutputSockets env w (port locator)
        = (?t\<lparr>mOutputSockets := (mOutputSockets ?t)(port locator := None)\<rparr>, False)"
      by (simp add: OpenAndBindOutputSockets_eq)
    have k: "output_port_only (port locator) w ?t"
      by (rule OpenAndBindOutputSockets_try_facts(1))
    then have "(mOutputSockets ?t)(port locator := None) = (mOutputSockets w)(port locator := None)"
      by (simp add: output_port_only_def)
    also have "\<dots> = mOutputSockets w" using none by (simp add: fun_upd_idem)
    finally show ?thesis using k unfolding e o by (simp add: output_port_only_def)
  qed
qed

lemma second_bind_refused:
  "refusals (fst (OpenOutputChannel os_refusing_second_bind whitelisted_transport unicast_locator)) = 1"
  "refusals whitelisted_transport = 0"
  "issued (mService (fst (OpenOutputChannel os_refusing_second_bind whitelisted_transport
       unicast_locator)))
     = [(SockOpen 0, True), (SetSendBufferSize 0 65536, True),
        (Bind 0 (address_v4 192 168 1 10) 7400, True),
        (SockOpen 1, True), (SetSendBufferSize 1 65536, True),
        (Bind 1 (address_v4 10 0 0 5) 7400, False)]"
  by (simp_all add: ex_defs op_defs refusals_def)

lemma granular_bind_refused:
  "refusals (fst (OpenOutputChannel os_refusing_bind granular_transport unicast_locator)) = 1"
  "refusals granular_transport = 0"
  by (simp_all add: ex_defs op_defs refusals_def)

theorem output_open_failure_rolls_back_witness:
  "refusals (fst (OpenOutputChannel os_refusing_second_bind whitelisted_transport unicast_locator))
     \<noteq> refusals whitelisted_transport \<and>
   snd (OpenOutputChannel os_refusing_second_bind whitelisted_transport unicast_locator) = False \<and>
   mOutputSockets (fst (OpenOutputChannel os_refusing_second_bind whitelisted_transport
       unicast_locator)) = mOutputSockets whitelisted_transport \<and>
   refusals (fst (OpenOutputChannel os_refusing_bind granular_transport unicast_locator))
     \<noteq> refusals granular_transport \<and>
   snd (OpenOutputChannel os_refusing_bind granular_transport unicast_locator) = False \<and>
   mGranularOutputSockets (fst (OpenOutputChannel os_refusing_bind granular_transport
       unicast_locator)) = mGranularOutputSockets granular_transport"
proof -
  have a: "refusals (fst (OpenOutputChannel os_refusing_second_bind whitelisted_transport
      unicast_locator)) \<noteq> refusals whitelisted_transport"
    by (simp add: second_bind_refused)
  have b: "refusals (fst (OpenOutputChannel os_refusing_bind granular_transport unicast_locator))
      \<noteq> refusals granular_transport"
    by (simp add: granular_bind_refused)
  from output_open_failure_rolls_back [OF a] output_open_failure_rolls_back [OF b] a b
  show ?thesis by blast
qed

text \<open>
  C1, as stated, at a whitelist of two entries of which one is the address of no interface
  of the host: the open succeeds and the port has one socket, not two.
\<close>

theorem one_socket_per_whitelist_entry_counterexample:
  "\<not> mGranularMode stale_whitelist_transport \<and>
   length (mInterfaceWhiteList stale_whitelist_transport) = 2 \<and>
   snd (OpenOutputChannel os_willing stale_whitelist_transport unicast_locator) \<and>
   length (output_sockets_at
            (fst (OpenOutputChannel os_willing stale_whitelist_transport unicast_locator)) 7400)
     \<noteq> 2"
  by (simp add: ex_defs op_defs)

text \<open>
  C1, amended: in shared-by-port mode an \<^verbatim>\<open>OpenOutputChannel\<close> on a port that returns
  true has created exactly one socket, handed to \<^verbatim>\<open>bind\<close> with the wildcard address,
  when the whitelist is empty. With a non-empty whitelist it has created exactly one
  socket per interface that \<^verbatim>\<open>IPFinder::getIPs\<close> reports with the type \<^verbatim>\<open>IP4\<close> and
  that \<^verbatim>\<open>IsInterfaceAllowed\<close> accepts, handed to \<^verbatim>\<open>bind\<close> with the address of that
  interface, in the order reported; an interface reported with another type (a loopback
  of type \<^verbatim>\<open>IP4_LOCAL\<close>) gets none, whitelisted or not. These are N sockets for a
  whitelist of N entries when the entries are distinct, each is the address of an
  interface reported with the type \<^verbatim>\<open>IP4\<close>, and the addresses reported with that type
  are distinct and none of them is the wildcard address. Every socket is handed to
  \<^verbatim>\<open>bind\<close> with the low 16 bits of the port.
\<close>

theorem shared_output_open_sockets:
  assumes "\<not> mGranularMode w" and "snd (OpenOutputChannel env w locator)"
  shows "map bind_endpoint (output_sockets_at (fst (OpenOutputChannel env w locator)) (port locator))
           = (if mInterfaceWhiteList w = [] then [(address_v4_any, ucast (port locator))]
              else map (\<lambda>ip. (ip, ucast (port locator)))
                     (filter (IsInterfaceAllowed w) (map ip_name (GetIP4s env)))) \<and>
         constructed (mService (fst (OpenOutputChannel env w locator)))
           = constructed (mService w) +
             length (output_sockets_at (fst (OpenOutputChannel env w locator)) (port locator)) \<and>
         (mInterfaceWhiteList w \<noteq> [] \<and> distinct (mInterfaceWhiteList w) \<and>
          distinct (map ip_name (GetIP4s env)) \<and>
          set (mInterfaceWhiteList w) \<subseteq> set (map ip_name (GetIP4s env)) \<and>
          address_v4_any \<notin> set (map ip_name (GetIP4s env)) \<longrightarrow>
            length (output_sockets_at (fst (OpenOutputChannel env w locator)) (port locator))
              = length (mInterfaceWhiteList w))"
proof -
  let ?prt = "port locator"
  let ?ips = "map ip_name (GetIP4s env)"
  let ?t = "fst (OpenAndBindOutputSockets_try env w ?prt)"
  let ?expected = "if mInterfaceWhiteList w = [] then [(address_v4_any, ucast ?prt :: 16 word)]
              else map (\<lambda>ip. (ip, ucast ?prt)) (filter (IsInterfaceAllowed w) ?ips)"
  from assms(2) have closed: "\<not> IsOutputChannelOpen w locator" and sup: "IsLocatorSupported locator"
    by (auto simp: OpenOutputChannel_def split: if_splits)
  have e: "OpenOutputChannel env w locator = OpenAndBindOutputSockets env w ?prt"
    using closed sup assms(1) by (simp add: OpenOutputChannel_def)
  from closed sup assms(1) have none: "output_sockets_at w ?prt = []"
    by (simp add: IsOutputChannelOpen_def output_sockets_at_def)
  have r: "refusals ?t = refusals w"
    using assms(2) unfolding e OpenAndBindOutputSockets_eq by (auto split: if_splits)
  then have o: "OpenAndBindOutputSockets env w ?prt = (?t, True)"
    by (simp add: OpenAndBindOutputSockets_eq)
  have m: "map bind_endpoint (output_sockets_at ?t ?prt) = ?expected"
    using OpenAndBindOutputSockets_try_facts(4) [OF r] none by simp
  have l: "length (output_sockets_at ?t ?prt) = length ?expected"
  proof -
    have "length (map bind_endpoint (output_sockets_at ?t ?prt)) = length ?expected"
      by (rule arg_cong [where f = length], rule m)
    then show ?thesis by simp
  qed
  have c: "constructed (mService ?t) = constructed (mService w) + length ?expected"
    using OpenAndBindOutputSockets_try_facts(5) [OF r] by simp
  have n: "length (output_sockets_at ?t ?prt) = length (mInterfaceWhiteList w)"
    if wl: "mInterfaceWhiteList w \<noteq> []" and d1: "distinct (mInterfaceWhiteList w)"
      and d2: "distinct ?ips" and sub: "set (mInterfaceWhiteList w) \<subseteq> set ?ips"
      and nany: "address_v4_any \<notin> set ?ips"
  proof -
    have "IsInterfaceAllowed w ip \<longleftrightarrow> ip \<in> set (mInterfaceWhiteList w)" if "ip \<in> set ?ips" for ip
    proof -
      from that nany have "ip \<noteq> address_v4_any" by blast
      with wl show ?thesis by (simp add: IsInterfaceAllowed_def)
    qed
    then have "filter (IsInterfaceAllowed w) ?ips
        = filter (\<lambda>ip. ip \<in> set (mInterfaceWhiteList w)) ?ips"
      by (rule filter_cong [OF refl])
    then have "length (filter (IsInterfaceAllowed w) ?ips) = length (mInterfaceWhiteList w)"
      using length_filter_whitelist [OF d1 d2 sub] by simp
    then show ?thesis using l wl by simp
  qed
  have g1: "map bind_endpoint (output_sockets_at ?t ?prt) = ?expected" by (rule m)
  have g2: "constructed (mService ?t) = constructed (mService w) + length (output_sockets_at ?t ?prt)"
    using c l by simp
  show ?thesis
    unfolding e o fst_conv
  proof (intro conjI impI)
    show "map bind_endpoint (output_sockets_at ?t ?prt) = ?expected" by (rule g1)
    show "constructed (mService ?t) = constructed (mService w) + length (output_sockets_at ?t ?prt)"
      by (rule g2)
    show "length (output_sockets_at ?t ?prt) = length (mInterfaceWhiteList w)"
      if "mInterfaceWhiteList w \<noteq> [] \<and> distinct (mInterfaceWhiteList w) \<and>
          distinct ?ips \<and> set (mInterfaceWhiteList w) \<subseteq> set ?ips \<and>
          address_v4_any \<notin> set ?ips"
      using that n by blast
  qed
qed

lemma whitelisted_open:
  "\<not> mGranularMode whitelisted_transport"
  "snd (OpenOutputChannel os_willing whitelisted_transport unicast_locator)"
  "mInterfaceWhiteList whitelisted_transport = [address_v4 192 168 1 10, address_v4 10 0 0 5]"
  "map ip_name (GetIP4s os_willing) = [address_v4 192 168 1 10, address_v4 10 0 0 5]"
  "constructed (mService whitelisted_transport) = 0"
  by (simp_all add: ex_defs op_defs)

lemma default_open:
  "\<not> mGranularMode default_transport"
  "snd (OpenOutputChannel os_willing default_transport unicast_locator)"
  "mInterfaceWhiteList default_transport = []"
  by (simp_all add: ex_defs op_defs)

theorem shared_output_open_sockets_witness:
  "\<not> mGranularMode default_transport \<and>
   snd (OpenOutputChannel os_willing default_transport unicast_locator) \<and>
   map bind_endpoint
     (output_sockets_at (fst (OpenOutputChannel os_willing default_transport unicast_locator)) 7400)
     = [(address_v4 0 0 0 0, 7400)] \<and>
   \<not> mGranularMode whitelisted_transport \<and>
   snd (OpenOutputChannel os_willing whitelisted_transport unicast_locator) \<and>
   map bind_endpoint
     (output_sockets_at (fst (OpenOutputChannel os_willing whitelisted_transport unicast_locator))
        7400)
     = [(address_v4 192 168 1 10, 7400), (address_v4 10 0 0 5, 7400)] \<and>
   constructed (mService (fst (OpenOutputChannel os_willing whitelisted_transport
      unicast_locator))) = 2"
proof -
  have p: "port unicast_locator = 7400" by (simp add: unicast_locator_def)
  have al: "IsInterfaceAllowed whitelisted_transport (address_v4 192 168 1 10)"
    "IsInterfaceAllowed whitelisted_transport (address_v4 10 0 0 5)"
    by (simp_all add: IsInterfaceAllowed_def whitelisted_open(3))
  from shared_output_open_sockets [OF default_open(1,2)]
    shared_output_open_sockets [OF whitelisted_open(1,2)]
  show ?thesis
    by (simp add: p default_open whitelisted_open al address_v4_any_def)
qed

section \<open>Opening and closing input channels\<close>

lemma OpenAndBindInputSockets_True:
  "snd (OpenAndBindInputSockets env w prt) \<Longrightarrow>
     mInputSockets (fst (OpenAndBindInputSockets env w prt)) prt \<noteq> None"
  by (cases "OpenAndBindInputSocket env w prt")
     (auto simp: OpenAndBindInputSockets_def split: outcome.splits if_splits)

lemma os_op_mInputSockets [simp]: "mInputSockets (fst (os_op env c w)) = mInputSockets w"
  using os_op_pools_kept [of w env c] by (simp add: pools_kept_def)

lemma OpenInputChannel_Returned_True:
  assumes "snd (OpenInputChannel env w locator) = Returned True"
  shows "IsInputChannelOpen (fst (OpenInputChannel env w locator)) locator"
proof -
  from assms have sup: "IsLocatorSupported locator"
    by (auto simp: OpenInputChannel_def split: if_splits)
  let ?b = "OpenAndBindInputSockets env w (port locator)"
  have closed: "\<not> IsInputChannelOpen w locator"
  proof
    assume "IsInputChannelOpen w locator"
    with assms sup show False
      by (auto simp: OpenInputChannel_def split_def split: if_splits option.splits)
  qed
  have "snd ?b"
  proof (rule ccontr)
    assume "\<not> snd ?b"
    with assms sup closed show False
      by (auto simp: OpenInputChannel_def split_def split: if_splits option.splits)
  qed
  then have o: "IsInputChannelOpen (fst ?b) locator"
    using sup OpenAndBindInputSockets_True [of env w "port locator"]
    by (simp add: IsInputChannelOpen_def)
  show ?thesis
  proof (cases "IsMulticastAddress locator")
    case False
    with sup closed have "fst (OpenInputChannel env w locator) = fst ?b"
      by (simp add: OpenInputChannel_def split_def)
    with o show ?thesis by simp
  next
    case True
    from o obtain socket where s: "mInputSockets (fst ?b) (port locator) = Some socket"
      by (auto simp: IsInputChannelOpen_def)
    with sup closed True o have "fst (OpenInputChannel env w locator)
        = fst (os_op env (JoinGroup (sock_id socket) (locator_IP4 locator)) (fst ?b))"
      by (simp add: OpenInputChannel_def split_def)
    with s sup show ?thesis by (simp add: IsInputChannelOpen_def)
  qed
qed

lemma os_ops_mInputSockets [simp]: "mInputSockets (fst (os_ops env cs w)) = mInputSockets w"
  using os_ops_pools_kept [of w env cs] by (simp add: pools_kept_def)

lemma CloseInputChannel_open:
  assumes "IsInputChannelOpen w locator" and "\<not> threw (snd (CloseInputChannel env w locator))"
  shows "snd (CloseInputChannel env w locator) = Returned True"
    and "mInputSockets (fst (CloseInputChannel env w locator))
           = (mInputSockets w)(port locator := None)"
proof -
  from assms(1) obtain socket where s: "mInputSockets w (port locator) = Some socket"
    by (auto simp: IsInputChannelOpen_def)
  let ?c = "os_ops env [Cancel (sock_id socket), Close (sock_id socket)] w"
  have e: "CloseInputChannel env w locator
      = (if snd ?c then ((fst ?c)\<lparr>mInputSockets := (mInputSockets (fst ?c))(port locator := None)\<rparr>,
                         Returned True)
         else (fst ?c, Threw system_error))"
    using assms(1) s by (simp add: CloseInputChannel_def split_def del: os_ops.simps)
  from assms(2) have ok: "snd ?c" unfolding e by (auto split: if_splits)
  show "snd (CloseInputChannel env w locator) = Returned True"
    unfolding e using ok by simp
  show "mInputSockets (fst (CloseInputChannel env w locator))
           = (mInputSockets w)(port locator := None)"
    unfolding e using ok by (simp del: os_ops.simps)
qed

lemma CloseInputChannel_closed:
  "\<not> IsInputChannelOpen w locator \<Longrightarrow> CloseInputChannel env w locator = (w, Returned False)"
  by (simp add: CloseInputChannel_def)

text \<open>
  The round trip of an input channel: when \<^verbatim>\<open>OpenInputChannel\<close> returns true the
  channel is open, and a following \<^verbatim>\<open>CloseInputChannel\<close> that returns a value returns
  true and leaves the channel not open.
\<close>

lemma input_open_close_round_trip:
  assumes "snd (OpenInputChannel env w locator) = Returned True"
  shows "IsInputChannelOpen (fst (OpenInputChannel env w locator)) locator \<and>
         (\<not> threw (snd (CloseInputChannel env' (fst (OpenInputChannel env w locator)) locator)) \<longrightarrow>
            snd (CloseInputChannel env' (fst (OpenInputChannel env w locator)) locator)
              = Returned True \<and>
            \<not> IsInputChannelOpen
                (fst (CloseInputChannel env' (fst (OpenInputChannel env w locator)) locator))
                locator)"
proof (intro conjI impI)
  show o: "IsInputChannelOpen (fst (OpenInputChannel env w locator)) locator"
    using assms by (rule OpenInputChannel_Returned_True)
  assume n: "\<not> threw (snd (CloseInputChannel env' (fst (OpenInputChannel env w locator)) locator))"
  show "snd (CloseInputChannel env' (fst (OpenInputChannel env w locator)) locator) = Returned True"
    using o n by (rule CloseInputChannel_open(1))
  show "\<not> IsInputChannelOpen
          (fst (CloseInputChannel env' (fst (OpenInputChannel env w locator)) locator)) locator"
    using CloseInputChannel_open(2) [OF o n] by (simp add: IsInputChannelOpen_def)
qed

lemma CloseInputChannel_cancel_refused:
  assumes "IsLocatorSupported locator" and "mInputSockets w (port locator) = Some socket"
    and "\<not> op_succeeds env (issued (mService w)) (Cancel (sock_id socket))"
  shows "CloseInputChannel env w locator
         = (record_op (Cancel (sock_id socket)) False w, Threw system_error)"
  using assms
  by (simp add: CloseInputChannel_def IsInputChannelOpen_def os_op_def Let_def)

lemma record_op_fields [simp]:
  "mInputSockets (record_op c ok w) = mInputSockets w"
  "mOutputSockets (record_op c ok w) = mOutputSockets w"
  "mGranularOutputSockets (record_op c ok w) = mGranularOutputSockets w"
  "issued (mService (record_op c ok w)) = issued (mService w) @ [(c, ok)]"
  "constructed (mService (record_op c ok w)) = constructed (mService w)"
  by (simp_all add: record_op_def)

text \<open>
  C6 fails on the code. After an \<^verbatim>\<open>OpenInputChannel\<close> that returned true, a
  \<^verbatim>\<open>CloseInputChannel\<close> on the same locator whose \<^verbatim>\<open>cancel\<close> the operating system
  refuses does not leave the channel closed: \<^verbatim>\<open>cancel\<close> is the throwing overload and
  stands outside every \<^verbatim>\<open>try\<close> block, its \<^verbatim>\<open>system_error\<close> leaves the call before
  the entry is erased, and \<^verbatim>\<open>IsInputChannelOpen\<close> is still true.
\<close>

theorem refused_cancel_leaves_input_channel_open:
  assumes "snd (OpenInputChannel env w locator) = Returned True"
    and "mInputSockets (fst (OpenInputChannel env w locator)) (port locator) = Some socket"
    and "\<not> op_succeeds env' (issued (mService (fst (OpenInputChannel env w locator))))
             (Cancel (sock_id socket))"
  shows "snd (CloseInputChannel env' (fst (OpenInputChannel env w locator)) locator)
           = Threw system_error \<and>
         IsInputChannelOpen
           (fst (CloseInputChannel env' (fst (OpenInputChannel env w locator)) locator)) locator \<and>
         issued (mService
           (fst (CloseInputChannel env' (fst (OpenInputChannel env w locator)) locator)))
           = issued (mService (fst (OpenInputChannel env w locator)))
             @ [(Cancel (sock_id socket), False)]"
proof -
  have "IsInputChannelOpen (fst (OpenInputChannel env w locator)) locator"
    using assms(1) by (rule OpenInputChannel_Returned_True)
  then have sup: "IsLocatorSupported locator"
    by (simp add: IsInputChannelOpen_def)
  show ?thesis
    unfolding CloseInputChannel_cancel_refused [OF sup assms(2,3)]
    using sup assms(2) by (simp add: IsInputChannelOpen_def)
qed

lemma receiving_transport_cancel_refused:
  "snd (OpenInputChannel os_refusing_first_cancel default_transport unicast_locator)
     = Returned True"
  "mInputSockets (fst (OpenInputChannel os_refusing_first_cancel default_transport
       unicast_locator)) (port unicast_locator)
     = Some \<lparr>sock_id = 0, bind_endpoint = (address_v4 0 0 0 0, 7400)\<rparr>"
  "\<not> op_succeeds os_refusing_first_cancel
       (issued (mService (fst (OpenInputChannel os_refusing_first_cancel default_transport
          unicast_locator))))
       (Cancel (sock_id \<lparr>sock_id = 0, bind_endpoint = (address_v4 0 0 0 0, 7400)\<rparr>))"
  by (simp_all add: ex_defs op_defs)

theorem refused_cancel_leaves_input_channel_open_witness:
  "snd (OpenInputChannel os_refusing_first_cancel default_transport unicast_locator)
     = Returned True \<and>
   snd (CloseInputChannel os_refusing_first_cancel
          (fst (OpenInputChannel os_refusing_first_cancel default_transport unicast_locator))
          unicast_locator)
     = Threw system_error \<and>
   IsInputChannelOpen
     (fst (CloseInputChannel os_refusing_first_cancel
             (fst (OpenInputChannel os_refusing_first_cancel default_transport unicast_locator))
             unicast_locator))
     unicast_locator"
  using refused_cancel_leaves_input_channel_open [OF receiving_transport_cancel_refused]
    receiving_transport_cancel_refused(1)
  by blast

text \<open>
  Opening an input channel that is open already, on a locator of the multicast range:
  the call issues exactly one socket operation, the join of the locator's group on the
  socket the pool holds, and when the operating system accepts it the call returns false
  with the pool as it was.
\<close>

lemma reopening_multicast_channel_joins_group:
  assumes "IsLocatorSupported locator" and "IsMulticastAddress locator"
    and "mInputSockets w (port locator) = Some socket"
    and "op_succeeds env (issued (mService w)) (JoinGroup (sock_id socket) (locator_IP4 locator))"
  shows "snd (OpenInputChannel env w locator) = Returned False \<and>
         issued (mService (fst (OpenInputChannel env w locator)))
           = issued (mService w) @ [(JoinGroup (sock_id socket) (locator_IP4 locator), True)] \<and>
         mInputSockets (fst (OpenInputChannel env w locator)) = mInputSockets w"
  using assms
  by (simp add: OpenInputChannel_def IsInputChannelOpen_def os_op_def Let_def)

text \<open>
  C10 fails on the code. \<^verbatim>\<open>OpenInputChannel\<close> on a locator of the multicast range
  whose input channel is already open does attempt the join of the group on the socket
  the pool holds, but when the operating system refuses that join (as it does for a group
  the socket has joined already) the call does not return false: the \<^verbatim>\<open>system_error\<close>
  of the throwing \<^verbatim>\<open>set_option\<close> leaves it. This is the defect of C3, met on the path
  of the channel that is already open.
\<close>

theorem reopening_joined_group_throws:
  assumes "IsLocatorSupported locator" and "IsMulticastAddress locator"
    and "mInputSockets w (port locator) = Some socket"
    and "\<not> op_succeeds env (issued (mService w))
             (JoinGroup (sock_id socket) (locator_IP4 locator))"
  shows "snd (OpenInputChannel env w locator) = Threw system_error \<and>
         issued (mService (fst (OpenInputChannel env w locator)))
           = issued (mService w) @ [(JoinGroup (sock_id socket) (locator_IP4 locator), False)] \<and>
         mInputSockets (fst (OpenInputChannel env w locator)) = mInputSockets w"
  using assms
  by (simp add: OpenInputChannel_def IsInputChannelOpen_def os_op_def Let_def)

lemma joined_transport_facts:
  "IsLocatorSupported multicast_locator"
  "IsMulticastAddress multicast_locator"
  "mInputSockets joined_transport (port multicast_locator)
     = Some \<lparr>sock_id = 0, bind_endpoint = (address_v4 0 0 0 0, 7400)\<rparr>"
  "\<not> op_succeeds os_refusing_repeated_join (issued (mService joined_transport))
       (JoinGroup (sock_id \<lparr>sock_id = 0, bind_endpoint = (address_v4 0 0 0 0, 7400)\<rparr>)
          (locator_IP4 multicast_locator))"
  "snd (OpenInputChannel os_refusing_repeated_join default_transport multicast_locator)
     = Returned True"
  "issued (mService joined_transport)
     = [(SockOpen 0, True), (SetReceiveBufferSize 0 65536, True), (SetReuseAddress 0, True),
        (SetMulticastLoopback 0, True), (Bind 0 (address_v4 0 0 0 0) 7400, True),
        (JoinGroup 0 (address_v4 239 255 0 1), True)]"
  "locator_IP4 multicast_locator = address_v4 239 255 0 1"
  by (simp_all add: joined_transport_def ex_defs op_defs)

theorem reopening_joined_group_throws_witness:
  "snd (OpenInputChannel os_refusing_repeated_join default_transport multicast_locator)
     = Returned True \<and>
   IsInputChannelOpen joined_transport multicast_locator \<and>
   snd (OpenInputChannel os_refusing_repeated_join joined_transport multicast_locator)
     = Threw system_error \<and>
   issued (mService
     (fst (OpenInputChannel os_refusing_repeated_join joined_transport multicast_locator)))
     = [(SockOpen 0, True), (SetReceiveBufferSize 0 65536, True), (SetReuseAddress 0, True),
        (SetMulticastLoopback 0, True), (Bind 0 (address_v4 0 0 0 0) 7400, True),
        (JoinGroup 0 (address_v4 239 255 0 1), True),
        (JoinGroup 0 (address_v4 239 255 0 1), False)]"
  using reopening_joined_group_throws [OF joined_transport_facts(1-4)]
    joined_transport_facts
  by (simp add: IsInputChannelOpen_def)

text \<open>
  C3 fails on the code. For a locator of the multicast range whose channel is not open
  yet: when the socket is opened, configured and bound and the operating system then
  refuses the join of the group, \<^verbatim>\<open>OpenInputChannel\<close> does not return true: the
  \<^verbatim>\<open>system_error\<close> of the throwing \<^verbatim>\<open>set_option\<close> leaves the call, and the bound
  socket stays in the input pool.
\<close>

theorem join_refusal_escapes_OpenInputChannel:
  assumes "IsLocatorSupported locator" and "IsMulticastAddress locator"
    and "\<not> IsInputChannelOpen w locator"
    and "snd (OpenAndBindInputSockets env w (port locator))"
    and "mInputSockets (fst (OpenAndBindInputSockets env w (port locator))) (port locator)
           = Some socket"
    and "\<not> op_succeeds env
             (issued (mService (fst (OpenAndBindInputSockets env w (port locator)))))
             (JoinGroup (sock_id socket) (locator_IP4 locator))"
  shows "snd (OpenInputChannel env w locator) = Threw system_error \<and>
         IsInputChannelOpen (fst (OpenInputChannel env w locator)) locator"
  using assms
  by (simp add: OpenInputChannel_def IsInputChannelOpen_def os_op_def record_op_def Let_def
      split_def)

lemma join_refused_after_bind:
  "IsLocatorSupported multicast_locator"
  "IsMulticastAddress multicast_locator"
  "\<not> IsInputChannelOpen default_transport multicast_locator"
  "snd (OpenAndBindInputSockets os_refusing_join default_transport (port multicast_locator))"
  "mInputSockets (fst (OpenAndBindInputSockets os_refusing_join default_transport
       (port multicast_locator))) (port multicast_locator)
     = Some \<lparr>sock_id = 0, bind_endpoint = (address_v4 0 0 0 0, 7400)\<rparr>"
  "\<not> op_succeeds os_refusing_join
       (issued (mService (fst (OpenAndBindInputSockets os_refusing_join default_transport
          (port multicast_locator)))))
       (JoinGroup (sock_id \<lparr>sock_id = 0, bind_endpoint = (address_v4 0 0 0 0, 7400)\<rparr>)
          (locator_IP4 multicast_locator))"
  "issued (mService (fst (OpenInputChannel os_refusing_join default_transport multicast_locator)))
     = [(SockOpen 0, True), (SetReceiveBufferSize 0 65536, True), (SetReuseAddress 0, True),
        (SetMulticastLoopback 0, True), (Bind 0 (address_v4 0 0 0 0) 7400, True),
        (JoinGroup 0 (address_v4 239 255 0 1), False)]"
  by (simp_all add: ex_defs op_defs)

theorem join_refusal_escapes_OpenInputChannel_witness:
  "IsLocatorSupported multicast_locator \<and> IsMulticastAddress multicast_locator \<and>
   \<not> IsInputChannelOpen default_transport multicast_locator \<and>
   issued (mService (fst (OpenInputChannel os_refusing_join default_transport multicast_locator)))
     = [(SockOpen 0, True), (SetReceiveBufferSize 0 65536, True), (SetReuseAddress 0, True),
        (SetMulticastLoopback 0, True), (Bind 0 (address_v4 0 0 0 0) 7400, True),
        (JoinGroup 0 (address_v4 239 255 0 1), False)] \<and>
   snd (OpenInputChannel os_refusing_join default_transport multicast_locator)
     = Threw system_error \<and>
   IsInputChannelOpen (fst (OpenInputChannel os_refusing_join default_transport multicast_locator))
     multicast_locator"
  using join_refusal_escapes_OpenInputChannel [OF join_refused_after_bind(1-6)]
    join_refused_after_bind(1,2,3,7)
  by blast

section \<open>Closing twice\<close>

lemma cancel_and_close_all_pools_kept:
  "pools_kept w (fst (cancel_and_close_all env w sockets))"
proof (induction sockets arbitrary: w)
  case Nil
  show ?case by (simp add: pools_kept_refl)
next
  case (Cons socket sockets)
  let ?c = "os_ops env [Cancel (sock_id socket), Close (sock_id socket)] w"
  have k: "pools_kept w (fst ?c)" by (rule os_ops_pools_kept)
  show ?case
  proof (cases "snd ?c")
    case True
    then have "fst (cancel_and_close_all env w (socket # sockets))
        = fst (cancel_and_close_all env (fst ?c) sockets)"
      by (simp add: split_def del: os_ops.simps)
    with pools_kept_trans [OF k Cons [of "fst ?c"]] show ?thesis by simp
  next
    case False
    then have "fst (cancel_and_close_all env w (socket # sockets)) = fst ?c"
      by (simp add: split_def del: os_ops.simps)
    with k show ?thesis by simp
  qed
qed

lemma CloseOutputChannel_closed:
  "\<not> IsOutputChannelOpen w locator \<Longrightarrow> CloseOutputChannel env w locator = (w, Returned False)"
  by (simp add: CloseOutputChannel_def)

lemma CloseOutputChannel_open:
  assumes "IsOutputChannelOpen w locator" and "\<not> threw (snd (CloseOutputChannel env w locator))"
  shows "snd (CloseOutputChannel env w locator) = Returned True"
    and "\<not> IsOutputChannelOpen (fst (CloseOutputChannel env w locator)) locator"
proof -
  from assms(1) have sup: "IsLocatorSupported locator"
    by (auto simp: IsOutputChannelOpen_def split: if_splits)
  have "snd (CloseOutputChannel env w locator) = Returned True \<and>
        \<not> IsOutputChannelOpen (fst (CloseOutputChannel env w locator)) locator"
  proof (cases "mGranularMode w")
    case True
    with assms(1) sup obtain socket where s: "mGranularOutputSockets w locator = Some socket"
      by (auto simp: IsOutputChannelOpen_def)
    let ?c = "os_ops env [Cancel (sock_id socket), Close (sock_id socket)] w"
    have e: "CloseOutputChannel env w locator
        = (if snd ?c
           then ((fst ?c)\<lparr>mGranularOutputSockets :=
                    (mGranularOutputSockets (fst ?c))(locator := None)\<rparr>, Returned True)
           else (fst ?c, Threw system_error))"
      using assms(1) s True by (simp add: CloseOutputChannel_def split_def del: os_ops.simps)
    from assms(2) have ok: "snd ?c" unfolding e by (auto split: if_splits)
    have "mGranularMode (fst ?c)"
      using os_ops_pools_kept [of w env "[Cancel (sock_id socket), Close (sock_id socket)]"] True
      by (simp add: pools_kept_def del: os_ops.simps)
    then show ?thesis unfolding e using ok sup
      by (simp add: IsOutputChannelOpen_def del: os_ops.simps)
  next
    case False
    with assms(1) sup obtain sockets where s: "mOutputSockets w (port locator) = Some sockets"
      by (auto simp: IsOutputChannelOpen_def)
    let ?c = "cancel_and_close_all env w sockets"
    have e: "CloseOutputChannel env w locator
        = (if snd ?c
           then ((fst ?c)\<lparr>mOutputSockets := (mOutputSockets (fst ?c))(port locator := None)\<rparr>,
                 Returned True)
           else (fst ?c, Threw system_error))"
      using assms(1) s False by (simp add: CloseOutputChannel_def split_def)
    from assms(2) have ok: "snd ?c" unfolding e by (auto split: if_splits)
    have "\<not> mGranularMode (fst ?c)"
      using cancel_and_close_all_pools_kept [of w env sockets] False
      by (simp add: pools_kept_def)
    then show ?thesis unfolding e using ok sup
      by (simp add: IsOutputChannelOpen_def)
  qed
  then show "snd (CloseOutputChannel env w locator) = Returned True"
    and "\<not> IsOutputChannelOpen (fst (CloseOutputChannel env w locator)) locator"
    by simp_all
qed

lemma Abort_after:
  assumes "\<not> threw (snd (Abort env w r))" and "Cleanup r = Some locator"
  shows "\<not> IsInputChannelOpen (fst (Abort env w r)) locator"
proof (cases "IsInputChannelOpen w locator")
  case False
  then show ?thesis using assms(2) by (simp add: Abort_def CloseInputChannel_closed)
next
  case True
  let ?c = "CloseInputChannel env w locator"
  have f: "fst (Abort env w r) = fst ?c"
    using assms(2) by (cases ?c) (auto simp: Abort_def split: outcome.splits)
  have "threw (snd (Abort env w r)) = threw (snd ?c)"
    using assms(2) by (cases ?c) (auto simp: Abort_def split: outcome.splits)
  with assms(1) have "\<not> threw (snd ?c)" by simp
  from CloseInputChannel_open(2) [OF True this] show ?thesis
    unfolding f by (simp add: IsInputChannelOpen_def)
qed

text \<open>
  Closing twice when the first close returns a value: for an open channel, input or
  output, that first close returns true, and a second close of the same channel returns
  false and leaves the whole transport as the first close left it. Destroying a receiver
  resource after an \<^verbatim>\<open>Abort\<close> that returned changes nothing of the transport either.
\<close>

lemma close_is_idempotent:
  "(IsInputChannelOpen w locator \<and> \<not> threw (snd (CloseInputChannel env w locator)) \<longrightarrow>
      snd (CloseInputChannel env w locator) = Returned True \<and>
      CloseInputChannel env' (fst (CloseInputChannel env w locator)) locator
        = (fst (CloseInputChannel env w locator), Returned False)) \<and>
   (IsOutputChannelOpen w locator \<and> \<not> threw (snd (CloseOutputChannel env w locator)) \<longrightarrow>
      snd (CloseOutputChannel env w locator) = Returned True \<and>
      CloseOutputChannel env' (fst (CloseOutputChannel env w locator)) locator
        = (fst (CloseOutputChannel env w locator), Returned False)) \<and>
   (\<not> threw (snd (Abort env w r)) \<longrightarrow>
      ReceiverResource_destroy env' (fst (Abort env w r)) r = (fst (Abort env w r), Returned ()))"
proof (intro conjI impI)
  assume a: "IsInputChannelOpen w locator \<and> \<not> threw (snd (CloseInputChannel env w locator))"
  then show "snd (CloseInputChannel env w locator) = Returned True"
    by (simp add: CloseInputChannel_open(1))
  from a have "mInputSockets (fst (CloseInputChannel env w locator))
      = (mInputSockets w)(port locator := None)"
    by (simp add: CloseInputChannel_open(2))
  then have "\<not> IsInputChannelOpen (fst (CloseInputChannel env w locator)) locator"
    by (simp add: IsInputChannelOpen_def)
  then show "CloseInputChannel env' (fst (CloseInputChannel env w locator)) locator
        = (fst (CloseInputChannel env w locator), Returned False)"
    by (rule CloseInputChannel_closed)
next
  assume a: "IsOutputChannelOpen w locator \<and> \<not> threw (snd (CloseOutputChannel env w locator))"
  then show "snd (CloseOutputChannel env w locator) = Returned True"
    by (simp add: CloseOutputChannel_open(1))
  from a have "\<not> IsOutputChannelOpen (fst (CloseOutputChannel env w locator)) locator"
    by (simp add: CloseOutputChannel_open(2))
  then show "CloseOutputChannel env' (fst (CloseOutputChannel env w locator)) locator
        = (fst (CloseOutputChannel env w locator), Returned False)"
    by (rule CloseOutputChannel_closed)
next
  assume a: "\<not> threw (snd (Abort env w r))"
  show "ReceiverResource_destroy env' (fst (Abort env w r)) r = (fst (Abort env w r), Returned ())"
  proof (cases "Cleanup r")
    case None
    then show ?thesis by (simp add: ReceiverResource_destroy_def Abort_def)
  next
    case (Some l)
    from Abort_after [OF a Some]
    have "CloseInputChannel env' (fst (Abort env w r)) l = (fst (Abort env w r), Returned False)"
      by (rule CloseInputChannel_closed)
    with Some show ?thesis by (simp add: ReceiverResource_destroy_def)
  qed
qed




end
